theory Spec2Isabelle
  imports Main "HOL-Library.Word"
begin

section \<open>Payment gateway: signer, intake, payment processor and webhook dispatcher\<close>

text \<open>
  A shallow embedding of the gateway's JavaScript sources:
  \<^item> \<open>services/webhookService.js\<close>: \<open>sendWebhookEvent\<close>, \<open>generateSignature\<close>,
    \<open>verifyWebhookSignature\<close>;
  \<^item> \<open>jobs/paymentQueue.js\<close>: \<open>processPayment\<close>, the poller of
    \<open>startWebhookRetryProcessor\<close>, \<open>processWebhookEvent\<close>;
  \<^item> \<open>routes/payments.js\<close>: \<open>idempotencyMiddleware\<close>, \<open>POST /payments\<close>,
    \<open>POST /payments/:id/refund\<close>.

  Conventions. JavaScript strings are byte strings (\<open>string\<close>), so \<open>Buffer.from(s)\<close> is
  \<open>s\<close> itself. A thrown exception is the \<open>Inl\<close> of a sum. The tables of the PostgreSQL
  store are lists of records in insertion order. What the environment decides (the
  clock, \<open>Math.random()\<close>, \<open>uuidv4()\<close>, the answer of the HTTP receiver, the library
  functions \<open>crypto.createHmac\<close> and \<open>JSON.stringify\<close>) is a parameter of the function
  that reads it. An insert that violates a primary key throws; apart from that,
  database and queue calls do not fail in this model.
\<close>

subsection \<open>JavaScript values used by the signer\<close>

datatype js_error = JsError (error_name: string) (error_message: string)

text \<open>
  \<open>parseInt(string)\<close> without a radix (ECMAScript, section parseInt): leading white space
  is dropped, an optional sign is read, a \<open>0x\<close>/\<open>0X\<close> prefix selects radix 16, and
  the longest prefix of digits is the value; with no digit the result is \<open>NaN\<close>, here
  \<open>None\<close>. The model covers the ASCII white space characters and returns the exact
  integer (JavaScript rounds it to a double above \<open>2^53\<close>).
\<close>

definition is_space :: "char \<Rightarrow> bool" where
  "is_space c = (c \<in> set [CHR 0x09, CHR 0x0A, CHR 0x0B, CHR 0x0C, CHR 0x0D, CHR 0x20])"

definition digit_value :: "char \<Rightarrow> nat option" where
  "digit_value c =
     (let n = of_char c :: nat in
      if 48 \<le> n \<and> n \<le> 57 then Some (n - 48)
      else if 97 \<le> n \<and> n \<le> 102 then Some (n - 87)
      else if 65 \<le> n \<and> n \<le> 70 then Some (n - 55)
      else None)"

definition is_digit :: "nat \<Rightarrow> char \<Rightarrow> bool" where
  "is_digit radix c = (case digit_value c of None \<Rightarrow> False | Some d \<Rightarrow> d < radix)"

definition digits_value :: "nat \<Rightarrow> string \<Rightarrow> nat" where
  "digits_value radix z =
     foldl (\<lambda>acc c. acc * radix + (case digit_value c of None \<Rightarrow> 0 | Some d \<Rightarrow> d)) 0 z"

definition parseInt :: "string \<Rightarrow> int option" where
  "parseInt inputString =
     (let s = dropWhile is_space inputString;
          sign = (case s of c # _ \<Rightarrow> if c = CHR ''-'' then - 1 else 1 | [] \<Rightarrow> (1 :: int));
          s1 = (case s of c # r \<Rightarrow> if c = CHR ''-'' \<or> c = CHR ''+'' then r else s | [] \<Rightarrow> s);
          hex = (case s1 of a # b # _ \<Rightarrow> a = CHR ''0'' \<and> (b = CHR ''x'' \<or> b = CHR ''X'')
                 | _ \<Rightarrow> False);
          radix = (if hex then 16 else 10);
          s2 = (if hex then drop 2 s1 else s1);
          z = takeWhile (is_digit radix) s2
      in if z = [] then None else Some (sign * int (digits_value radix z)))"

subsection \<open>Signer: \<open>generateSignature\<close> and \<open>verifyWebhookSignature\<close>\<close>

text \<open>
  A payload is either already a string or an object that \<open>JSON.stringify\<close> serialises.
  \<open>crypto.createHmac('sha256', secret).update(message)\<close> is Node's library: it is the
  parameter \<open>H\<close>, a function from key and message to a 256-bit digest, and
  \<open>digest('hex')\<close> writes that digest as 64 lowercase hexadecimal digits, most
  significant first.
\<close>

datatype 'j payload = PString string | PObject 'j

definition hex_digit :: "nat \<Rightarrow> char" where
  "hex_digit n = ''0123456789abcdef'' ! (n mod 16)"

definition digest_hex :: "256 word \<Rightarrow> string" where
  "digest_hex d = map (\<lambda>i. hex_digit (unat (drop_bit (4 * (63 - i)) d))) [0..<64]"

definition payloadString :: "('j \<Rightarrow> string) \<Rightarrow> 'j payload \<Rightarrow> string" where
  "payloadString stringify p = (case p of PString s \<Rightarrow> s | PObject obj \<Rightarrow> stringify obj)"

definition generateSignature ::
  "(string \<Rightarrow> string \<Rightarrow> 256 word) \<Rightarrow> ('j \<Rightarrow> string) \<Rightarrow> 'j payload \<Rightarrow> string \<Rightarrow> string \<Rightarrow> string"
where
  "generateSignature H stringify p secret timestamp =
     (let message = timestamp @ ''.'' @ payloadString stringify p
      in digest_hex (H secret message))"

text \<open>
  \<open>crypto.timingSafeEqual(a, b)\<close> throws a \<open>RangeError\<close> when the two buffers differ in
  byte length, and otherwise compares them.
\<close>

definition timingSafeEqual :: "string \<Rightarrow> string \<Rightarrow> js_error + bool" where
  "timingSafeEqual a b =
     (if length a \<noteq> length b
      then Inl (JsError ''RangeError'' ''Input buffers must have the same byte length'')
      else Inr (a = b))"

text \<open>
  \<open>Math.abs(currentTime - parseInt(timestamp)) > tolerance\<close>; a comparison with
  \<open>NaN\<close> is false.
\<close>

definition timestamp_rejected :: "int \<Rightarrow> string \<Rightarrow> int \<Rightarrow> bool" where
  "timestamp_rejected currentTime timestamp tolerance =
     (case parseInt timestamp of None \<Rightarrow> False | Some t \<Rightarrow> \<bar>currentTime - t\<bar> > tolerance)"

text \<open>
  \<open>verifyWebhookSignature(payload, signature, secret, timestamp, tolerance = 300000)\<close>;
  \<open>currentTime\<close> is what \<open>Date.now()\<close> returns, in milliseconds, and a missing
  \<open>tolerance\<close> argument is \<open>None\<close>.
\<close>

definition verifyWebhookSignature ::
  "(string \<Rightarrow> string \<Rightarrow> 256 word) \<Rightarrow> ('j \<Rightarrow> string) \<Rightarrow> int \<Rightarrow>
     'j payload \<Rightarrow> string \<Rightarrow> string \<Rightarrow> string \<Rightarrow> int option \<Rightarrow> js_error + bool"
where
  "verifyWebhookSignature H stringify currentTime p signature secret timestamp tol =
     (let tolerance = (case tol of None \<Rightarrow> 300000 | Some t \<Rightarrow> t) in
      if timestamp_rejected currentTime timestamp tolerance then Inr False
      else
        let expectedSignature = generateSignature H stringify p secret timestamp
        in timingSafeEqual signature expectedSignature)"

text \<open>The timestamp check of \<open>verifyWebhookSignature\<close> lets the call through.\<close>

definition within_tolerance :: "int \<Rightarrow> string \<Rightarrow> int option \<Rightarrow> bool" where
  "within_tolerance currentTime timestamp tol =
     (\<not> timestamp_rejected currentTime timestamp (case tol of None \<Rightarrow> 300000 | Some t \<Rightarrow> t))"

subsection \<open>The store (\<open>migrations/001_initial_schema.sql\<close>)\<close>

text \<open>
  Identifiers are UUID strings, timestamps are seconds, and \<open>DECIMAL(15, 2)\<close> amounts
  are integers counting hundredths. \<open>status\<close> columns are \<open>VARCHAR\<close>, hence strings.
  \<open>retry_count\<close> and \<open>max_retries\<close> are natural numbers: rows are only ever inserted
  with the column defaults 0 and 5 and \<open>retry_count\<close> is only ever incremented.
\<close>

type_synonym uuid = string
type_synonym timestamp = int

record payment =
  p_id :: uuid
  p_idempotency_key :: string
  p_amount :: int
  p_currency :: string
  p_status :: string
  p_customer_email :: string
  p_customer_name :: "string option"
  p_description :: "string option"
  p_payment_method :: "string option"
  p_metadata :: string
  p_created_at :: timestamp

record refund =
  r_id :: uuid
  r_payment_id :: uuid
  r_amount :: int
  r_reason :: "string option"
  r_status :: string
  r_created_at :: timestamp

record webhook =
  w_id :: uuid
  w_url :: string
  w_events :: "string list"
  w_active :: bool
  w_secret :: string

text \<open>The payload objects the code builds for its events.\<close>

datatype event_payload =
    PaymentCompletedPayload uuid int string
  | PaymentFailedPayload uuid int string
  | RefundCreatedPayload uuid uuid int string timestamp

record webhook_event =
  e_id :: uuid
  e_webhook_id :: uuid
  e_event_type :: string
  e_payload :: event_payload
  e_status :: string
  e_retry_count :: nat
  e_max_retries :: nat
  e_next_retry :: "timestamp option"
  e_last_error :: "string option"

text \<open>The JSON bodies of the HTTP responses.\<close>

datatype body =
    ErrorBody string
  | PaymentBody uuid string int string timestamp
  | PaymentExistsBody uuid string string
  | RefundBody uuid uuid int string timestamp

type_synonym response = "nat \<times> body"

record idempotency_record =
  ik_key :: string
  ik_payment_id :: "uuid option"
  ik_response :: body
  ik_expires_at :: timestamp

text \<open>The data of a job on the \<open>payments\<close> queue.\<close>

record payment_job =
  job_paymentId :: uuid
  job_amount :: int
  job_email :: string

text \<open>The five tables, and the jobs added to the \<open>payments\<close> queue.\<close>

record store =
  payments :: "payment list"
  refunds :: "refund list"
  webhooks :: "webhook list"
  webhook_events :: "webhook_event list"
  idempotency_keys :: "idempotency_record list"
  payment_jobs :: "payment_job list"

subsection \<open>\<open>sendWebhookEvent\<close>\<close>

text \<open>
  What a delivery reads from outside: the HMAC and JSON library functions, the string
  \<open>Date.now().toString()\<close> and the outcome of \<open>axios.post\<close> (\<open>Inr\<close> the status of a
  2xx answer, \<open>Inl\<close> the message of the error axios throws otherwise).
\<close>

record http_request =
  rq_url :: string
  rq_body :: "event_payload payload"
  rq_headers :: "(string \<times> string) list"

record delivery_env =
  hmac_sha256 :: "string \<Rightarrow> string \<Rightarrow> 256 word"
  json_stringify :: "event_payload \<Rightarrow> string"
  date_now :: string
  axios_post :: "http_request \<Rightarrow> string + nat"

text \<open>
  The third argument of \<open>sendWebhookEvent\<close>: left out by the caller (\<open>undefined\<close>), a
  URL string, or a row \<open>{url, secret}\<close> of the \<open>webhooks\<close> table.

  Reading \<open>webhook.url\<close> of \<open>undefined\<close> throws a \<open>TypeError\<close> inside the \<open>try\<close> block,
  and so does a failed \<open>axios.post\<close>. The \<open>catch\<close> block first evaluates the template
  literal that mentions \<open>webhookUrl\<close>, a \<open>const\<close> declared inside the \<open>try\<close> block and
  out of scope in the \<open>catch\<close> block: that throws a \<open>ReferenceError\<close>, which is the
  error the caller sees, before \<open>throw new Error(...)\<close> is reached.
\<close>

datatype webhook_target = NoWebhook | WebhookUrl string | WebhookRow string string

definition sendWebhookEvent ::
  "delivery_env \<Rightarrow> string \<Rightarrow> event_payload payload \<Rightarrow> webhook_target \<Rightarrow> js_error + nat"
where
  "sendWebhookEvent env eventType p webhook =
     (case webhook of
        NoWebhook \<Rightarrow> Inl (JsError ''ReferenceError'' ''webhookUrl is not defined'')
      | _ \<Rightarrow>
        let webhookUrl = (case webhook of WebhookRow u _ \<Rightarrow> u | WebhookUrl u \<Rightarrow> u | NoWebhook \<Rightarrow> []);
            secret = (case webhook of WebhookRow _ sec \<Rightarrow> sec | _ \<Rightarrow> []);
            timestamp = date_now env;
            signature = generateSignature (hmac_sha256 env) (json_stringify env) p secret timestamp
        in (case axios_post env
                \<lparr>rq_url = webhookUrl, rq_body = p,
                 rq_headers = [(''Content-Type'', ''application/json''),
                               (''X-Webhook-Event'', eventType),
                               (''X-Webhook-Signature'', signature),
                               (''X-Webhook-Timestamp'', timestamp)]\<rparr> of
              Inr status \<Rightarrow> Inr status
            | Inl _ \<Rightarrow> Inl (JsError ''ReferenceError'' ''webhookUrl is not defined'')))"

subsection \<open>Payment processor: \<open>processPayment\<close>\<close>

text \<open>\<open>UPDATE payments SET status = $1 WHERE id = $2\<close>.\<close>

definition update_payment_status :: "string \<Rightarrow> uuid \<Rightarrow> store \<Rightarrow> store" where
  "update_payment_status st paymentId s =
     s\<lparr>payments := map (\<lambda>p. if p_id p = paymentId then p\<lparr>p_status := st\<rparr> else p) (payments s)\<rparr>"

text \<open>
  \<open>INSERT INTO webhook_events (webhook_id, event_type, payload, status)
  SELECT id, $1, $2, $3 FROM webhooks WHERE active = true\<close> with status \<open>pending\<close>; the other columns take
  their defaults, and \<open>new_id i\<close> is the \<open>gen_random_uuid()\<close> of the \<open>i\<close>-th new row.
\<close>

definition new_event :: "uuid \<Rightarrow> string \<Rightarrow> event_payload \<Rightarrow> webhook \<Rightarrow> webhook_event" where
  "new_event eid event_type pl w =
     \<lparr>e_id = eid, e_webhook_id = w_id w, e_event_type = event_type, e_payload = pl,
      e_status = ''pending'', e_retry_count = 0, e_max_retries = 5, e_next_retry = None,
      e_last_error = None\<rparr>"

definition insert_webhook_events ::
  "(nat \<Rightarrow> uuid) \<Rightarrow> string \<Rightarrow> event_payload \<Rightarrow> store \<Rightarrow> store"
where
  "insert_webhook_events new_id event_type pl s =
     s\<lparr>webhook_events := webhook_events s @
          map (\<lambda>(i, w). new_event (new_id i) event_type pl w)
              (enumerate 0 (filter w_active (webhooks s)))\<rparr>"

text \<open>
  \<open>processPayment(data)\<close>; \<open>isSuccess\<close> is \<open>Math.random() < 0.9\<close>. The function reads
  nothing of the payment. On failure it commits and then throws; the \<open>ROLLBACK\<close> of its
  \<open>catch\<close> block comes after the \<open>COMMIT\<close> and undoes nothing.
\<close>

definition processPayment ::
  "(nat \<Rightarrow> uuid) \<Rightarrow> bool \<Rightarrow> payment_job \<Rightarrow> store \<Rightarrow> (js_error + unit) \<times> store"
where
  "processPayment new_id isSuccess data s =
     (let paymentId = job_paymentId data; amount = job_amount data; email = job_email data in
      if isSuccess then
        (Inr (),
         insert_webhook_events new_id ''payment.completed''
           (PaymentCompletedPayload paymentId amount email)
           (update_payment_status ''completed'' paymentId s))
      else
        (Inl (JsError ''Error'' (''Payment '' @ paymentId @ '' processing failed'')),
         insert_webhook_events new_id ''payment.failed''
           (PaymentFailedPayload paymentId amount ''Processing failed'')
           (update_payment_status ''failed'' paymentId s)))"

subsection \<open>Webhook dispatcher: the poller and \<open>processWebhookEvent\<close>\<close>

text \<open>
  The poller's \<open>WHERE status = 'pending' AND (next_retry IS NULL OR next_retry <= NOW())\<close>.
  Its \<open>LIMIT 100\<close> returns some of the rows that satisfy it.
\<close>

definition due :: "timestamp \<Rightarrow> webhook_event \<Rightarrow> bool" where
  "due now e =
     (e_status e = ''pending'' \<and> (case e_next_retry e of None \<Rightarrow> True | Some t \<Rightarrow> t \<le> now))"

text \<open>\<open>UPDATE webhook_events SET ... WHERE id = $n\<close>.\<close>

definition update_event :: "uuid \<Rightarrow> (webhook_event \<Rightarrow> webhook_event) \<Rightarrow> store \<Rightarrow> store" where
  "update_event eventId f s =
     s\<lparr>webhook_events := map (\<lambda>e. if e_id e = eventId then f e else e) (webhook_events s)\<rparr>"

text \<open>
  \<open>Math.pow(2, newRetryCount) * 60\<close>, on natural numbers (JavaScript computes it in
  doubles, without rounding up to \<open>newRetryCount = 1018\<close>).
\<close>

definition backoffSeconds :: "nat \<Rightarrow> nat" where
  "backoffSeconds newRetryCount = 2 ^ newRetryCount * 60"

text \<open>
  \<open>processWebhookEvent(eventData)\<close>; \<open>now\<close> is the \<open>NOW()\<close> of its \<open>UPDATE\<close>. The retry
  count and the retry limit are those of the job's data, not re-read from the row.
\<close>

definition processWebhookEvent ::
  "delivery_env \<Rightarrow> timestamp \<Rightarrow> webhook_event \<Rightarrow> store \<Rightarrow> store"
where
  "processWebhookEvent env now eventData s =
     (let eventId = e_id eventData in
      case filter (\<lambda>w. w_id w = e_webhook_id eventData) (webhooks s) of
        [] \<Rightarrow> update_event eventId (\<lambda>e. e\<lparr>e_status := ''failed''\<rparr>) s
      | wh # _ \<Rightarrow>
        (case sendWebhookEvent env (e_event_type eventData) (PObject (e_payload eventData))
                (WebhookRow (w_url wh) (w_secret wh)) of
           Inr _ \<Rightarrow> update_event eventId (\<lambda>e. e\<lparr>e_status := ''completed''\<rparr>) s
         | Inl err \<Rightarrow>
             let newRetryCount = e_retry_count eventData + 1 in
             if newRetryCount \<ge> e_max_retries eventData then
               update_event eventId
                 (\<lambda>e. e\<lparr>e_status := ''failed'', e_last_error := Some (error_message err),
                        e_retry_count := newRetryCount\<rparr>) s
             else
               update_event eventId
                 (\<lambda>e. e\<lparr>e_retry_count := newRetryCount,
                        e_next_retry := Some (now + int (backoffSeconds newRetryCount)),
                        e_last_error := Some (error_message err)\<rparr>) s))"

text \<open>
  One round of the dispatcher for one event: the poller at \<open>pollTime\<close> finds the row due
  and adds it, as it is, as the data of a job; the worker runs \<open>processWebhookEvent\<close> on
  it. A row that is not due is not selected and nothing happens.
\<close>

definition dispatch_step ::
  "delivery_env \<Rightarrow> timestamp \<Rightarrow> timestamp \<Rightarrow> uuid \<Rightarrow> store \<Rightarrow> store"
where
  "dispatch_step env pollTime now eventId s =
     (case filter (\<lambda>e. e_id e = eventId \<and> due pollTime e) (webhook_events s) of
        [] \<Rightarrow> s
      | e # _ \<Rightarrow> processWebhookEvent env now e s)"

fun dispatch_run ::
  "(delivery_env \<times> timestamp \<times> timestamp \<times> uuid) list \<Rightarrow> store \<Rightarrow> store"
where
  "dispatch_run [] s = s"
| "dispatch_run ((env, pollTime, now, eventId) # steps) s =
     dispatch_run steps (dispatch_step env pollTime now eventId s)"

subsection \<open>Intake: \<open>idempotencyMiddleware\<close>, \<open>POST /payments\<close>, \<open>POST /payments/:id/refund\<close>\<close>

text \<open>
  \<open>idempotencyMiddleware\<close>: \<open>None\<close> is \<open>next()\<close>, \<open>Some r\<close> is the response it sends itself.
  A missing header and an empty one are both falsy. The query is
  \<open>SELECT response FROM idempotency_keys WHERE key = $1\<close>.
\<close>

definition idempotencyMiddleware :: "string option \<Rightarrow> store \<Rightarrow> response option" where
  "idempotencyMiddleware header s =
     (case header of
        None \<Rightarrow> None
      | Some key \<Rightarrow>
          if key = [] then None
          else (case filter (\<lambda>r. ik_key r = key) (idempotency_keys s) of
                  [] \<Rightarrow> None
                | r # _ \<Rightarrow> Some (200, ik_response r)))"

record payment_request =
  q_amount :: "int option"
  q_currency :: "string option"
  q_customer_email :: "string option"
  q_customer_name :: "string option"
  q_description :: "string option"
  q_payment_method :: "string option"
  q_metadata :: "string option"

text \<open>
  The handler of \<open>POST /payments\<close>. \<open>generatedKey\<close> and \<open>paymentId\<close> are the two
  \<open>uuidv4()\<close> values, \<open>now\<close> the clock of the database. An insert that violates a
  primary key throws, the \<open>catch\<close> block rolls back and answers 500. Bull ignores a job
  whose \<open>jobId\<close> it already holds.
\<close>

definition new_payment ::
  "uuid \<Rightarrow> string \<Rightarrow> int \<Rightarrow> string \<Rightarrow> string \<Rightarrow> string \<Rightarrow> payment_request \<Rightarrow> timestamp
     \<Rightarrow> payment"
where
  "new_payment paymentId idempotencyKey amount currency customer_email metadata rq now =
     \<lparr>p_id = paymentId, p_idempotency_key = idempotencyKey, p_amount = amount,
      p_currency = currency, p_status = ''pending'', p_customer_email = customer_email,
      p_customer_name = q_customer_name rq, p_description = q_description rq,
      p_payment_method = q_payment_method rq, p_metadata = metadata, p_created_at = now\<rparr>"

definition insert_payment :: "payment \<Rightarrow> store \<Rightarrow> store" where
  "insert_payment p s = s\<lparr>payments := payments s @ [p]\<rparr>"

definition insert_idempotency_key :: "idempotency_record \<Rightarrow> store \<Rightarrow> store" where
  "insert_idempotency_key r s = s\<lparr>idempotency_keys := idempotency_keys s @ [r]\<rparr>"

definition add_payment_job :: "payment_job \<Rightarrow> store \<Rightarrow> store" where
  "add_payment_job job s =
     (if job_paymentId job \<in> set (map job_paymentId (payment_jobs s)) then s
      else s\<lparr>payment_jobs := payment_jobs s @ [job]\<rparr>)"

definition create_payment ::
  "uuid \<Rightarrow> uuid \<Rightarrow> timestamp \<Rightarrow> string option \<Rightarrow> payment_request \<Rightarrow> store \<Rightarrow> response \<times> store"
where
  "create_payment generatedKey paymentId now header rq s =
     (let idempotencyKey =
            (case header of None \<Rightarrow> generatedKey | Some k \<Rightarrow> if k = [] then generatedKey else k);
          currency = (case q_currency rq of None \<Rightarrow> ''USD'' | Some c \<Rightarrow> c);
          metadata = (case q_metadata rq of None \<Rightarrow> ''{}'' | Some m \<Rightarrow> m);
          amount = (case q_amount rq of None \<Rightarrow> 0 | Some a \<Rightarrow> a);
          customer_email = (case q_customer_email rq of None \<Rightarrow> [] | Some e \<Rightarrow> e)
      in
      if amount \<le> 0 then ((400, ErrorBody ''Invalid amount''), s)
      else if customer_email = [] then ((400, ErrorBody ''Customer email is required''), s)
      else
        (case filter (\<lambda>p. p_idempotency_key p = idempotencyKey) (payments s) of
           existing # _ \<Rightarrow>
             ((200, PaymentExistsBody (p_id existing) (p_status existing) ''Payment already exists''), s)
         | [] \<Rightarrow>
             if paymentId \<in> set (map p_id (payments s))
                \<or> idempotencyKey \<in> set (map ik_key (idempotency_keys s))
             then ((500, ErrorBody ''Payment processing failed''), s)
             else
               let response = PaymentBody paymentId ''pending'' amount currency now in
               ((201, response),
                add_payment_job
                  \<lparr>job_paymentId = paymentId, job_amount = amount, job_email = customer_email\<rparr>
                  (insert_idempotency_key
                     \<lparr>ik_key = idempotencyKey, ik_payment_id = Some paymentId,
                      ik_response = response, ik_expires_at = now + 24 * 3600\<rparr>
                     (insert_payment
                        (new_payment paymentId idempotencyKey amount currency customer_email
                           metadata rq now) s)))))"

definition post_payments ::
  "uuid \<Rightarrow> uuid \<Rightarrow> timestamp \<Rightarrow> string option \<Rightarrow> payment_request \<Rightarrow> store \<Rightarrow> response \<times> store"
where
  "post_payments generatedKey paymentId now header rq s =
     (case idempotencyMiddleware header s of
        Some r \<Rightarrow> (r, s)
      | None \<Rightarrow> create_payment generatedKey paymentId now header rq s)"

text \<open>
  The handler of \<open>POST /payments/:id/refund\<close>. \<open>amount || payment.amount\<close> takes the
  payment's amount when the request gives none or gives 0. The refund is inserted and
  committed before \<open>sendWebhookEvent('refund.created', refund)\<close> runs; that call has no
  third argument, so it throws, and the \<open>catch\<close> block answers 500 (its \<open>ROLLBACK\<close>
  comes after the \<open>COMMIT\<close>).
\<close>

definition insert_refund :: "refund \<Rightarrow> store \<Rightarrow> store" where
  "insert_refund r s = s\<lparr>refunds := refunds s @ [r]\<rparr>"

definition create_refund ::
  "delivery_env \<Rightarrow> uuid \<Rightarrow> timestamp \<Rightarrow> uuid \<Rightarrow> int option \<Rightarrow> string option \<Rightarrow> store
     \<Rightarrow> response \<times> store"
where
  "create_refund env refundId now paymentId amount reason s =
     (case filter (\<lambda>p. p_id p = paymentId) (payments s) of
        [] \<Rightarrow> ((404, ErrorBody ''Payment not found''), s)
      | pay # _ \<Rightarrow>
          let refundAmount =
                (case amount of None \<Rightarrow> p_amount pay
                 | Some a \<Rightarrow> if a = 0 then p_amount pay else a)
          in
          if refundAmount > p_amount pay
          then ((400, ErrorBody ''Refund amount exceeds payment amount''), s)
          else if refundId \<in> set (map r_id (refunds s))
          then ((500, ErrorBody ''Refund processing failed''), s)
          else
            let s' = insert_refund
                       \<lparr>r_id = refundId, r_payment_id = paymentId, r_amount = refundAmount,
                        r_reason = reason, r_status = ''pending'', r_created_at = now\<rparr> s;
                refund = RefundCreatedPayload refundId paymentId refundAmount ''pending'' now
            in (case sendWebhookEvent env ''refund.created'' (PObject refund) NoWebhook of
                  Inl _ \<Rightarrow> ((500, ErrorBody ''Refund processing failed''), s')
                | Inr _ \<Rightarrow> ((201, RefundBody refundId paymentId refundAmount ''pending'' now), s')))"

definition post_refund ::
  "delivery_env \<Rightarrow> uuid \<Rightarrow> timestamp \<Rightarrow> string option \<Rightarrow> uuid \<Rightarrow> int option \<Rightarrow> string option
     \<Rightarrow> store \<Rightarrow> response \<times> store"
where
  "post_refund env refundId now header paymentId amount reason s =
     (case idempotencyMiddleware header s of
        Some r \<Rightarrow> (r, s)
      | None \<Rightarrow> create_refund env refundId now paymentId amount reason s)"

subsection \<open>Sequences of operations on the store\<close>

datatype operation =
    PostPayment uuid uuid timestamp "string option" payment_request
  | PostRefund delivery_env uuid timestamp "string option" uuid "int option" "string option"
  | RunProcessPayment "nat \<Rightarrow> uuid" bool payment_job

fun apply_operation :: "operation \<Rightarrow> store \<Rightarrow> store" where
  "apply_operation (PostPayment generatedKey paymentId now header rq) s =
     snd (post_payments generatedKey paymentId now header rq s)"
| "apply_operation (PostRefund env refundId now header paymentId amount reason) s =
     snd (post_refund env refundId now header paymentId amount reason s)"
| "apply_operation (RunProcessPayment new_id isSuccess data) s =
     snd (processPayment new_id isSuccess data s)"

text \<open>The stores a sequence of operations goes through, the first one included.\<close>

fun run_trace :: "operation list \<Rightarrow> store \<Rightarrow> store list" where
  "run_trace [] s = [s]"
| "run_trace (opn # ops) s = s # run_trace ops (apply_operation opn s)"

subsection \<open>The vocabulary of the specification\<close>

text \<open>The status of a payment, \<open>None\<close> while no row has the identifier.\<close>

definition status_of :: "uuid \<Rightarrow> store \<Rightarrow> string option" where
  "status_of paymentId s =
     (case filter (\<lambda>p. p_id p = paymentId) (payments s) of
        [] \<Rightarrow> None
      | p # _ \<Rightarrow> Some (p_status p))"

text \<open>
  The edges \<open>pending \<rightarrow> {completed, failed}\<close> and
  \<open>completed \<rightarrow> {refunded, partial_refunded}\<close>.
\<close>

definition dag_edge :: "string \<Rightarrow> string \<Rightarrow> bool" where
  "dag_edge a b =
     ((a = ''pending'' \<and> (b = ''completed'' \<or> b = ''failed''))
      \<or> (a = ''completed'' \<and> (b = ''refunded'' \<or> b = ''partial_refunded'')))"

text \<open>
  Two successive observations of a payment: it is not there yet, it appears as
  \<open>pending\<close>, it keeps its status, or it moves along an edge.
\<close>

fun status_step :: "string option \<Rightarrow> string option \<Rightarrow> bool" where
  "status_step None None = True"
| "status_step None (Some b) = (b = ''pending'')"
| "status_step (Some a) None = False"
| "status_step (Some a) (Some b) = (a = b \<or> dag_edge a b)"

fun status_path :: "string option list \<Rightarrow> bool" where
  "status_path (x # y # rest) = (status_step x y \<and> status_path (y # rest))"
| "status_path _ = True"

text \<open>
  Every run of the payment processor in the sequence finds its payment \<open>pending\<close>, or
  finds no such payment.
\<close>

fun processed_while_pending :: "operation list \<Rightarrow> store \<Rightarrow> bool" where
  "processed_while_pending [] s = True"
| "processed_while_pending (opn # ops) s =
     ((case opn of
         RunProcessPayment _ _ data \<Rightarrow>
           (case status_of (job_paymentId data) s of None \<Rightarrow> True | Some st \<Rightarrow> st = ''pending'')
       | _ \<Rightarrow> True)
      \<and> processed_while_pending ops (apply_operation opn s))"

text \<open>The sum of the amounts of a payment's refunds that are \<open>pending\<close> or \<open>processed\<close>.\<close>

definition refunded_amount :: "uuid \<Rightarrow> store \<Rightarrow> int" where
  "refunded_amount paymentId s =
     sum_list (map r_amount
       (filter (\<lambda>r. r_payment_id r = paymentId
                   \<and> (r_status r = ''pending'' \<or> r_status r = ''processed''))
          (refunds s)))"

text \<open>The row of an event, by identifier.\<close>

definition event_by_id :: "uuid \<Rightarrow> store \<Rightarrow> webhook_event option" where
  "event_by_id eventId s = find (\<lambda>e. e_id e = eventId) (webhook_events s)"

text \<open>
  The state of the outbox the dispatcher starts from and keeps: identifiers are unique
  (the primary key), a pending row has retries left, and no row is past its limit.
\<close>

definition event_ok :: "webhook_event \<Rightarrow> bool" where
  "event_ok e =
     (if e_status e = ''pending'' then e_retry_count e < e_max_retries e
      else e_retry_count e \<le> e_max_retries e)"

definition events_ok :: "store \<Rightarrow> bool" where
  "events_ok s = (distinct (map e_id (webhook_events s)) \<and> list_all event_ok (webhook_events s))"

text \<open>
  What a delivery attempt for an event meets: no subscription row (\<open>None\<close>), or the
  result of \<open>sendWebhookEvent\<close> for the first row with the event's \<open>webhook_id\<close>.
\<close>

definition delivery :: "delivery_env \<Rightarrow> webhook_event \<Rightarrow> store \<Rightarrow> (js_error + nat) option" where
  "delivery env eventData s =
     (case filter (\<lambda>w. w_id w = e_webhook_id eventData) (webhooks s) of
        [] \<Rightarrow> None
      | wh # _ \<Rightarrow>
          Some (sendWebhookEvent env (e_event_type eventData) (PObject (e_payload eventData))
                  (WebhookRow (w_url wh) (w_secret wh))))"

subsection \<open>Stand-ins for closed instances\<close>

text \<open>
  The theorems below hold for every digest function and every serialiser. Where a closed
  instance needs one, it uses these: a digest that only counts bytes, and a serialiser
  for a payload type with one value.
\<close>

definition length_digest :: "string \<Rightarrow> string \<Rightarrow> 256 word" where
  "length_digest key message = of_nat (length key + length message)"

definition no_stringify :: "unit \<Rightarrow> string" where
  "no_stringify u = ''null''"

text \<open>
  A receiver that answers 200 and one that answers 500, and an outbox with one
  subscription and four events: a fresh one, a delivered one, one on its last retry,
  and one whose subscription row is gone. \<open>failing_rounds\<close> are six rounds of the
  dispatcher for the first event, the receiver down in five of them.
\<close>

definition flat_stringify :: "event_payload \<Rightarrow> string" where
  "flat_stringify pl = ''{}''"

definition receiver_up :: delivery_env where
  "receiver_up =
     \<lparr>hmac_sha256 = length_digest, json_stringify = flat_stringify,
      date_now = ''1705315870000'', axios_post = (\<lambda>rq. Inr 200)\<rparr>"

definition receiver_down :: delivery_env where
  "receiver_down =
     \<lparr>hmac_sha256 = length_digest, json_stringify = flat_stringify,
      date_now = ''1705315870000'',
      axios_post = (\<lambda>rq. Inl ''Request failed with status code 500'')\<rparr>"

definition merchant_hook :: webhook where
  "merchant_hook =
     \<lparr>w_id = ''wh-1'', w_url = ''https://merchant.example/hook'',
      w_events = [''payment.completed''], w_active = True, w_secret = ''s''\<rparr>"

definition first_try :: webhook_event where
  "first_try =
     \<lparr>e_id = ''evt-1'', e_webhook_id = ''wh-1'', e_event_type = ''payment.completed'',
      e_payload = PaymentCompletedPayload ''pay-1'' 10000 ''a@b.c'', e_status = ''pending'',
      e_retry_count = 0, e_max_retries = 5, e_next_retry = None, e_last_error = None\<rparr>"

definition delivered_row :: webhook_event where
  "delivered_row = first_try\<lparr>e_id := ''evt-2'', e_status := ''completed''\<rparr>"

definition last_try :: webhook_event where
  "last_try = first_try\<lparr>e_id := ''evt-3'', e_retry_count := 4\<rparr>"

definition orphan :: webhook_event where
  "orphan = first_try\<lparr>e_id := ''evt-4'', e_webhook_id := ''wh-gone''\<rparr>"

definition outbox :: store where
  "outbox =
     \<lparr>payments = [], refunds = [], webhooks = [merchant_hook],
      webhook_events = [first_try, delivered_row, last_try, orphan],
      idempotency_keys = [], payment_jobs = []\<rparr>"

definition failing_rounds :: "(delivery_env \<times> timestamp \<times> timestamp \<times> uuid) list" where
  "failing_rounds =
     [(receiver_down, 0, 0, ''evt-1''), (receiver_down, 200, 200, ''evt-1''),
      (receiver_down, 500, 500, ''evt-1''), (receiver_down, 1000, 1000, ''evt-1''),
      (receiver_down, 2000, 2000, ''evt-1''), (receiver_up, 3000, 3000, ''evt-1'')]"


text \<open>
  A store with three payments (one completed and partly refunded, one pending, one
  completed), three subscriptions (one for \<open>payment.completed\<close>, one for
  \<open>refund.created\<close> only, one inactive) and an idempotency record that expires at
  time 86400; the identifiers the database gives to new events; and a sequence of
  operations: a new payment, two runs of the payment processor and a refund request.
\<close>

definition event_uuid :: "nat \<Rightarrow> uuid" where
  "event_uuid i = ''evt-new-'' @ replicate (Suc i) (CHR ''i'')"

definition paid :: payment where
  "paid =
     \<lparr>p_id = ''pay-1'', p_idempotency_key = ''key-1'', p_amount = 10000, p_currency = ''USD'',
      p_status = ''completed'', p_customer_email = ''a@b.c'', p_customer_name = None,
      p_description = None, p_payment_method = None, p_metadata = ''{}'', p_created_at = 0\<rparr>"

definition waiting :: payment where
  "waiting = paid\<lparr>p_id := ''pay-2'', p_idempotency_key := ''key-2'', p_amount := 5000,
                   p_status := ''pending''\<rparr>"

definition settled :: payment where
  "settled = paid\<lparr>p_id := ''pay-3'', p_idempotency_key := ''key-3'', p_amount := 2000\<rparr>"

definition earlier_refund :: refund where
  "earlier_refund =
     \<lparr>r_id = ''ref-1'', r_payment_id = ''pay-1'', r_amount = 6000, r_reason = None,
      r_status = ''pending'', r_created_at = 10\<rparr>"

definition refund_hook :: webhook where
  "refund_hook = merchant_hook\<lparr>w_id := ''wh-2'', w_events := [''refund.created'']\<rparr>"

definition paused_hook :: webhook where
  "paused_hook = merchant_hook\<lparr>w_id := ''wh-3'', w_active := False\<rparr>"

definition old_key :: idempotency_record where
  "old_key =
     \<lparr>ik_key = ''key-1'', ik_payment_id = Some ''pay-1'',
      ik_response = PaymentBody ''pay-1'' ''pending'' 10000 ''USD'' 0, ik_expires_at = 86400\<rparr>"

definition shop :: store where
  "shop =
     \<lparr>payments = [paid, waiting, settled], refunds = [earlier_refund],
      webhooks = [merchant_hook, refund_hook, paused_hook], webhook_events = [],
      idempotency_keys = [old_key], payment_jobs = []\<rparr>"

definition paid_job :: payment_job where
  "paid_job = \<lparr>job_paymentId = ''pay-1'', job_amount = 10000, job_email = ''a@b.c''\<rparr>"

definition waiting_job :: payment_job where
  "waiting_job = \<lparr>job_paymentId = ''pay-2'', job_amount = 5000, job_email = ''a@b.c''\<rparr>"

definition order :: payment_request where
  "order =
     \<lparr>q_amount = Some 7500, q_currency = None, q_customer_email = Some ''c@d.e'',
      q_customer_name = None, q_description = None, q_payment_method = None,
      q_metadata = None\<rparr>"

definition busy_day :: "operation list" where
  "busy_day =
     [PostPayment ''key-gen'' ''pay-4'' 100 (Some ''key-4'') order,
      RunProcessPayment event_uuid True waiting_job,
      RunProcessPayment event_uuid False
        \<lparr>job_paymentId = ''pay-4'', job_amount = 7500, job_email = ''c@d.e''\<rparr>,
      PostRefund receiver_up ''ref-2'' 200 None ''pay-1'' (Some 1000) None]"

section \<open>Properties of the signer\<close>

lemma length_digest_hex: "length (digest_hex d) = 64"
  by (simp add: digest_hex_def)

lemma length_generateSignature:
  "length (generateSignature H stringify p secret timestamp) = 64"
  by (simp add: generateSignature_def Let_def length_digest_hex)


lemma verify_within:
  "within_tolerance currentTime timestamp tol \<Longrightarrow>
   verifyWebhookSignature H stringify currentTime p signature secret timestamp tol =
     timingSafeEqual signature (generateSignature H stringify p secret timestamp)"
  by (simp add: verifyWebhookSignature_def within_tolerance_def Let_def)

text \<open>
  A digest has 256 bits and payloads are unbounded: whatever the digest function, two
  different payloads have the same signature, and a signature made for one of them is
  accepted for the other. Rejecting a changed payload is as good as the digest is at
  telling the two apart.
\<close>

lemma digest_collision:
  fixes f :: "string \<Rightarrow> 256 word"
  shows "\<exists>p p'. p \<noteq> p' \<and> f p = f p'"
proof (rule ccontr)
  assume "\<not> (\<exists>p p'. p \<noteq> p' \<and> f p = f p')"
  then have "inj f" by (auto simp add: inj_on_def)
  moreover have "finite (range f)" by simp
  ultimately have "finite (UNIV :: string set)" by (rule finite_imageD [rotated])
  then show False by (simp add: infinite_UNIV_listI)
qed

lemma colliding_payload_verifies:
  assumes "within_tolerance currentTime timestamp tol"
  shows "\<exists>p p'. p \<noteq> p'
           \<and> verifyWebhookSignature H stringify currentTime (PString p')
                (generateSignature H stringify (PString p) secret timestamp) secret timestamp tol
               = Inr True"
proof -
  obtain p p' where ne: "p \<noteq> p'"
      and eq: "H secret (timestamp @ ''.'' @ p) = H secret (timestamp @ ''.'' @ p')"
    using digest_collision [of "\<lambda>p. H secret (timestamp @ ''.'' @ p)"] by blast
  have "generateSignature H stringify (PString p) secret timestamp
          = generateSignature H stringify (PString p') secret timestamp"
    using eq by (simp add: generateSignature_def payloadString_def)
  then have "verifyWebhookSignature H stringify currentTime (PString p')
                (generateSignature H stringify (PString p) secret timestamp) secret timestamp tol
               = Inr True"
    using assms by (simp add: verify_within timingSafeEqual_def)
  then show ?thesis using ne by blast
qed

lemma parseInt_example: "parseInt ''1705315870000'' = Some 1705315870000"
  by (simp add: parseInt_def is_space_def is_digit_def digit_value_def digits_value_def)

lemma within_example: "within_tolerance 1705315870000 ''1705315870000'' None"
  by (simp add: within_tolerance_def timestamp_rejected_def parseInt_example)







text \<open>
  Claim C10. With a timestamp that passes the tolerance check, a candidate signature
  whose byte length is not 64, the length of the expected hexadecimal digest, makes
  \<open>verifyWebhookSignature\<close> throw the \<open>RangeError\<close> of \<open>crypto.timingSafeEqual\<close>
  instead of returning false; a candidate of 64 bytes gets a boolean answer.
\<close>

theorem verifyWebhookSignature_length:
  assumes "within_tolerance currentTime timestamp tol"
  shows "(length signature \<noteq> 64 \<longrightarrow>
            verifyWebhookSignature H stringify currentTime p signature secret timestamp tol =
              Inl (JsError ''RangeError'' ''Input buffers must have the same byte length''))
       \<and> (length signature = 64 \<longrightarrow>
            verifyWebhookSignature H stringify currentTime p signature secret timestamp tol =
              Inr (signature = generateSignature H stringify p secret timestamp))"
  using assms by (simp add: verify_within timingSafeEqual_def length_generateSignature)

theorem verifyWebhookSignature_length_witness:
  "within_tolerance 1705315870000 ''1705315870000'' None
   \<and> length ''deadbeef'' \<noteq> 64
   \<and> verifyWebhookSignature length_digest no_stringify 1705315870000 (PString ''{}'')
        ''deadbeef'' ''s'' ''1705315870000'' None =
       Inl (JsError ''RangeError'' ''Input buffers must have the same byte length'')
   \<and> length (replicate 64 (CHR ''f'')) = 64
   \<and> verifyWebhookSignature length_digest no_stringify 1705315870000 (PString ''{}'')
        (replicate 64 (CHR ''f'')) ''s'' ''1705315870000'' None =
       Inr (replicate 64 (CHR ''f'') =
            generateSignature length_digest no_stringify (PString ''{}'') ''s'' ''1705315870000'')"
proof -
  note short = verifyWebhookSignature_length [OF within_example, where H = length_digest
      and stringify = no_stringify and p = "PString ''{}''" and secret = "''s''"
      and signature = "''deadbeef''"]
  note full = verifyWebhookSignature_length [OF within_example, where H = length_digest
      and stringify = no_stringify and p = "PString ''{}''" and secret = "''s''"
      and signature = "replicate 64 (CHR ''f'')"]
  have n: "length ''deadbeef'' \<noteq> 64" by simp
  have l: "length (replicate 64 (CHR ''f'')) = 64" by simp
  have c1: "verifyWebhookSignature length_digest no_stringify 1705315870000 (PString ''{}'')
        ''deadbeef'' ''s'' ''1705315870000'' None =
       Inl (JsError ''RangeError'' ''Input buffers must have the same byte length'')"
    using short n by blast
  have c2: "verifyWebhookSignature length_digest no_stringify 1705315870000 (PString ''{}'')
        (replicate 64 (CHR ''f'')) ''s'' ''1705315870000'' None =
       Inr (replicate 64 (CHR ''f'') =
            generateSignature length_digest no_stringify (PString ''{}'') ''s'' ''1705315870000'')"
    using full l by blast
  from within_example n c1 l c2 show ?thesis
    by (intro conjI)
qed

section \<open>Properties of the webhook dispatcher\<close>

lemma update_event_events:
  "webhook_events (update_event i f s) = map (\<lambda>e. if e_id e = i then f e else e) (webhook_events s)"
  by (simp add: update_event_def)

lemma update_event_webhooks: "webhooks (update_event i f s) = webhooks s"
  by (simp add: update_event_def)

lemma processWebhookEvent_missing:
  "delivery env ev s = None \<Longrightarrow>
   processWebhookEvent env now ev s = update_event (e_id ev) (\<lambda>e. e\<lparr>e_status := ''failed''\<rparr>) s"
  by (simp add: delivery_def processWebhookEvent_def split: list.splits)

lemma processWebhookEvent_delivered:
  "delivery env ev s = Some (Inr st) \<Longrightarrow>
   processWebhookEvent env now ev s = update_event (e_id ev) (\<lambda>e. e\<lparr>e_status := ''completed''\<rparr>) s"
  by (auto simp add: delivery_def processWebhookEvent_def split: list.splits)

lemma processWebhookEvent_exhausted:
  "delivery env ev s = Some (Inl err) \<Longrightarrow> e_max_retries ev \<le> e_retry_count ev + 1 \<Longrightarrow>
   processWebhookEvent env now ev s =
     update_event (e_id ev)
       (\<lambda>e. e\<lparr>e_status := ''failed'', e_last_error := Some (error_message err),
              e_retry_count := e_retry_count ev + 1\<rparr>) s"
  by (auto simp add: delivery_def processWebhookEvent_def Let_def split: list.splits)

lemma processWebhookEvent_retry:
  "delivery env ev s = Some (Inl err) \<Longrightarrow> e_retry_count ev + 1 < e_max_retries ev \<Longrightarrow>
   processWebhookEvent env now ev s =
     update_event (e_id ev)
       (\<lambda>e. e\<lparr>e_retry_count := e_retry_count ev + 1,
              e_next_retry := Some (now + int (backoffSeconds (e_retry_count ev + 1))),
              e_last_error := Some (error_message err)\<rparr>) s"
  by (auto simp add: delivery_def processWebhookEvent_def Let_def split: list.splits)

lemmas example_defs = outbox_def first_try_def delivered_row_def last_try_def orphan_def
  merchant_hook_def receiver_up_def receiver_down_def failing_rounds_def

lemmas dispatcher_defs = dispatch_step_def processWebhookEvent_def sendWebhookEvent_def
  update_event_def due_def backoffSeconds_def event_by_id_def delivery_def

lemma outbox_ok: "events_ok outbox"
  by (simp add: events_ok_def event_ok_def example_defs)

lemma failing_rounds_result: "event_by_id ''evt-1'' (dispatch_run failing_rounds outbox) =
   Some (first_try\<lparr>e_status := ''failed'', e_retry_count := 5, e_next_retry := Some 1960,
          e_last_error := Some ''webhookUrl is not defined''\<rparr>)"
  by (simp add: example_defs dispatcher_defs)

text \<open>
  Claim C8. When the delivery of attempt \<open>n = retry_count + 1\<close> fails (\<open>sendWebhookEvent\<close>
  throws) and \<open>n < max_retries\<close>, \<open>processWebhookEvent\<close> updates the event's row, and
  nothing else, to \<open>retry_count = n\<close>, \<open>next_retry = now + 2^n * 60\<close> seconds and
  \<open>last_error\<close> the message of the error; the delays for \<open>n = 1..5\<close> are 2, 4, 8, 16
  and 32 minutes.
\<close>

theorem backoff_schedule:
  assumes "filter (\<lambda>w. w_id w = e_webhook_id eventData) (webhooks s) = wh # others"
      and "sendWebhookEvent env (e_event_type eventData) (PObject (e_payload eventData))
             (WebhookRow (w_url wh) (w_secret wh)) = Inl err"
      and "n = e_retry_count eventData + 1"
      and "n < e_max_retries eventData"
  shows "processWebhookEvent env now eventData s =
           s\<lparr>webhook_events :=
               map (\<lambda>e. if e_id e = e_id eventData
                         then e\<lparr>e_retry_count := n,
                                e_next_retry := Some (now + int (2 ^ n * 60)),
                                e_last_error := Some (error_message err)\<rparr>
                         else e)
                   (webhook_events s)\<rparr>
         \<and> map backoffSeconds [1, 2, 3, 4, 5] = [2 * 60, 4 * 60, 8 * 60, 16 * 60, 32 * 60]"
proof
  have "delivery env eventData s = Some (Inl err)"
    using assms(1,2) by (simp add: delivery_def)
  then show "processWebhookEvent env now eventData s =
           s\<lparr>webhook_events :=
               map (\<lambda>e. if e_id e = e_id eventData
                         then e\<lparr>e_retry_count := n,
                                e_next_retry := Some (now + int (2 ^ n * 60)),
                                e_last_error := Some (error_message err)\<rparr>
                         else e)
                   (webhook_events s)\<rparr>"
    using assms(3,4) by (simp add: processWebhookEvent_retry update_event_def backoffSeconds_def)
next
  show "map backoffSeconds [1, 2, 3, 4, 5] = [2 * 60, 4 * 60, 8 * 60, 16 * 60, 32 * 60]"
    by (simp add: backoffSeconds_def)
qed

theorem backoff_schedule_witness:
  "filter (\<lambda>w. w_id w = e_webhook_id first_try) (webhooks outbox) = merchant_hook # []
   \<and> sendWebhookEvent receiver_down (e_event_type first_try) (PObject (e_payload first_try))
        (WebhookRow (w_url merchant_hook) (w_secret merchant_hook))
      = Inl (JsError ''ReferenceError'' ''webhookUrl is not defined'')
   \<and> (1 :: nat) = e_retry_count first_try + 1
   \<and> 1 < e_max_retries first_try
   \<and> processWebhookEvent receiver_down 1000 first_try outbox =
        outbox\<lparr>webhook_events :=
           map (\<lambda>e. if e_id e = e_id first_try
                     then e\<lparr>e_retry_count := 1, e_next_retry := Some (1000 + int (2 ^ 1 * 60)),
                            e_last_error :=
                              Some (error_message (JsError ''ReferenceError'' ''webhookUrl is not defined''))\<rparr>
                     else e)
               (webhook_events outbox)\<rparr>
   \<and> map backoffSeconds [1, 2, 3, 4, 5] = [2 * 60, 4 * 60, 8 * 60, 16 * 60, 32 * 60]"
proof -
  have h1: "filter (\<lambda>w. w_id w = e_webhook_id first_try) (webhooks outbox) = merchant_hook # []"
    by (simp add: example_defs)
  have h2: "sendWebhookEvent receiver_down (e_event_type first_try) (PObject (e_payload first_try))
        (WebhookRow (w_url merchant_hook) (w_secret merchant_hook))
      = Inl (JsError ''ReferenceError'' ''webhookUrl is not defined'')"
    by (simp add: example_defs sendWebhookEvent_def)
  have h3: "(1 :: nat) = e_retry_count first_try + 1" by (simp add: first_try_def)
  have h4: "1 < e_max_retries first_try" by (simp add: first_try_def)
  note t = backoff_schedule [OF h1 h2 h3 h4, of 1000]
  from h1 h2 h3 h4 t [THEN conjunct1] t [THEN conjunct2] show ?thesis
    by (intro conjI)
qed

lemma event_by_id_Some:
  "event_by_id i s = Some e \<Longrightarrow> e \<in> set (webhook_events s) \<and> e_id e = i"
  by (auto simp add: event_by_id_def find_Some_iff)

lemma distinct_ids_unique:
  "distinct (map e_id rows) \<Longrightarrow> e \<in> set rows \<Longrightarrow> r \<in> set rows \<Longrightarrow> e_id r = e_id e \<Longrightarrow> r = e"
  unfolding distinct_map inj_on_def by blast

lemma map_ids_update:
  "(\<And>r. e_id (f r) = e_id r) \<Longrightarrow>
   map e_id (map (\<lambda>r. if e_id r = i then f r else r) rows) = map e_id rows"
  by (induction rows) auto

lemma find_update_hit:
  "distinct (map e_id rows) \<Longrightarrow> e \<in> set rows \<Longrightarrow> (\<And>r. e_id (f r) = e_id r) \<Longrightarrow>
   find (\<lambda>r. e_id r = e_id e) (map (\<lambda>r. if e_id r = e_id e then f r else r) rows) = Some (f e)"
proof (induction rows)
  case Nil
  then show ?case by simp
next
  case (Cons a rows)
  show ?case
  proof (cases "e_id a = e_id e")
    case True
    then have "a = e"
      using Cons.prems(1,2) distinct_ids_unique [of "a # rows" e a] by simp
    then show ?thesis using Cons.prems(3) by simp
  next
    case False
    then have "e \<in> set rows" using Cons.prems(2) by auto
    then show ?thesis using False Cons by simp
  qed
qed

lemma update_keeps_others:
  "distinct (map e_id rows) \<Longrightarrow> e \<in> set rows \<Longrightarrow> r \<in> set rows \<Longrightarrow> r \<noteq> e \<Longrightarrow>
   r \<in> set (map (\<lambda>x. if e_id x = e_id e then f x else x) rows)"
proof -
  assume d: "distinct (map e_id rows)" and e: "e \<in> set rows" and r: "r \<in> set rows" and ne: "r \<noteq> e"
  have "e_id r \<noteq> e_id e" using distinct_ids_unique [OF d e r] ne by blast
  then have "(\<lambda>x. if e_id x = e_id e then f x else x) r = r" by simp
  then have "r \<in> (\<lambda>x. if e_id x = e_id e then f x else x) ` set rows"
    using r by (rule image_eqI [OF sym])
  then show ?thesis by simp
qed

lemma events_ok_update:
  assumes ok: "events_ok s" and e: "e \<in> set (webhook_events s)"
      and idf: "\<And>r. e_id (f r) = e_id r" and fe: "event_ok (f e)"
  shows "events_ok (update_event (e_id e) f s)"
proof -
  have d: "distinct (map e_id (webhook_events s))" and all: "list_all event_ok (webhook_events s)"
    using ok by (simp_all add: events_ok_def)
  have "map e_id (webhook_events (update_event (e_id e) f s)) = map e_id (webhook_events s)"
    unfolding update_event_events by (rule map_ids_update [OF idf])
  then have "distinct (map e_id (webhook_events (update_event (e_id e) f s)))"
    using d by simp
  moreover have "list_all event_ok (webhook_events (update_event (e_id e) f s))"
    unfolding update_event_events list_all_iff
  proof
    fix x assume "x \<in> set (map (\<lambda>r. if e_id r = e_id e then f r else r) (webhook_events s))"
    then obtain r where r: "r \<in> set (webhook_events s)" and x: "x = (if e_id r = e_id e then f r else r)"
      by auto
    show "event_ok x"
    proof (cases "e_id r = e_id e")
      case True
      then have "r = e" using distinct_ids_unique [OF d e r] by simp
      then show ?thesis using x fe by simp
    next
      case False
      then show ?thesis using x r all by (simp add: list_all_iff)
    qed
  qed
  ultimately show ?thesis by (simp add: events_ok_def)
qed

lemma shape_missing:
  assumes lt: "e_retry_count e < e_max_retries e" and d: "delivery env e s = None"
  shows "processWebhookEvent env now e s = update_event (e_id e) (\<lambda>r. r\<lparr>e_status := ''failed''\<rparr>) s"
    and "event_ok (e\<lparr>e_status := ''failed''\<rparr>)"
  using lt by (simp_all add: processWebhookEvent_missing [OF d] event_ok_def)

lemma shape_delivered:
  assumes lt: "e_retry_count e < e_max_retries e" and d: "delivery env e s = Some (Inr st)"
  shows "processWebhookEvent env now e s = update_event (e_id e) (\<lambda>r. r\<lparr>e_status := ''completed''\<rparr>) s"
    and "event_ok (e\<lparr>e_status := ''completed''\<rparr>)"
  using lt by (simp_all add: processWebhookEvent_delivered [OF d] event_ok_def)

lemma shape_exhausted:
  assumes lt: "e_retry_count e < e_max_retries e" and d: "delivery env e s = Some (Inl err)"
      and ex: "e_max_retries e \<le> e_retry_count e + 1"
  shows "processWebhookEvent env now e s =
           update_event (e_id e)
             (\<lambda>r. r\<lparr>e_status := ''failed'', e_last_error := Some (error_message err),
                    e_retry_count := e_retry_count e + 1\<rparr>) s"
    and "event_ok (e\<lparr>e_status := ''failed'', e_last_error := Some (error_message err),
                    e_retry_count := e_retry_count e + 1\<rparr>)"
    and "e_retry_count e + 1 = e_max_retries e"
proof -
  show "processWebhookEvent env now e s =
           update_event (e_id e)
             (\<lambda>r. r\<lparr>e_status := ''failed'', e_last_error := Some (error_message err),
                    e_retry_count := e_retry_count e + 1\<rparr>) s"
    by (rule processWebhookEvent_exhausted [OF d ex])
  show eq: "e_retry_count e + 1 = e_max_retries e" using lt ex by linarith
  show "event_ok (e\<lparr>e_status := ''failed'', e_last_error := Some (error_message err),
                    e_retry_count := e_retry_count e + 1\<rparr>)"
    using eq by (simp add: event_ok_def)
qed

lemma shape_retry:
  assumes pend: "e_status e = ''pending''" and d: "delivery env e s = Some (Inl err)"
      and less: "e_retry_count e + 1 < e_max_retries e"
  shows "processWebhookEvent env now e s =
           update_event (e_id e)
             (\<lambda>r. r\<lparr>e_retry_count := e_retry_count e + 1,
                    e_next_retry := Some (now + int (backoffSeconds (e_retry_count e + 1))),
                    e_last_error := Some (error_message err)\<rparr>) s"
    and "event_ok (e\<lparr>e_retry_count := e_retry_count e + 1,
                    e_next_retry := Some (now + int (backoffSeconds (e_retry_count e + 1))),
                    e_last_error := Some (error_message err)\<rparr>)"
    and "e_status (e\<lparr>e_retry_count := e_retry_count e + 1,
                    e_next_retry := Some (now + int (backoffSeconds (e_retry_count e + 1))),
                    e_last_error := Some (error_message err)\<rparr>) \<noteq> ''failed''"
proof -
  show "processWebhookEvent env now e s =
           update_event (e_id e)
             (\<lambda>r. r\<lparr>e_retry_count := e_retry_count e + 1,
                    e_next_retry := Some (now + int (backoffSeconds (e_retry_count e + 1))),
                    e_last_error := Some (error_message err)\<rparr>) s"
    by (rule processWebhookEvent_retry [OF d less])
  show "event_ok (e\<lparr>e_retry_count := e_retry_count e + 1,
                    e_next_retry := Some (now + int (backoffSeconds (e_retry_count e + 1))),
                    e_last_error := Some (error_message err)\<rparr>)"
    using pend less by (simp add: event_ok_def)
  show "e_status (e\<lparr>e_retry_count := e_retry_count e + 1,
                    e_next_retry := Some (now + int (backoffSeconds (e_retry_count e + 1))),
                    e_last_error := Some (error_message err)\<rparr>) \<noteq> ''failed''"
    using pend by simp
qed

lemma processWebhookEvent_shape:
  assumes pend: "e_status e = ''pending''" and ok: "event_ok e"
  shows "\<exists>f. processWebhookEvent env now e s = update_event (e_id e) f s
            \<and> (\<forall>r. e_id (f r) = e_id r) \<and> event_ok (f e)
            \<and> ((e_status (f e) = ''failed'') =
                 (delivery env e s = None
                  \<or> ((\<exists>err. delivery env e s = Some (Inl err))
                       \<and> e_retry_count e + 1 = e_max_retries e)))
            \<and> (delivery env e s \<noteq> None \<and> e_status (f e) = ''failed''
                 \<longrightarrow> e_retry_count (f e) = e_max_retries (f e))"
proof -
  have lt: "e_retry_count e < e_max_retries e" using pend ok by (simp add: event_ok_def)
  show ?thesis
  proof (cases "delivery env e s")
    case None
    let ?f = "\<lambda>r. r\<lparr>e_status := ''failed''\<rparr>"
    have "processWebhookEvent env now e s = update_event (e_id e) ?f s" and "event_ok (?f e)"
      using shape_missing [OF lt None] by simp_all
    moreover have "\<forall>r. e_id (?f r) = e_id r" by simp
    moreover have "(e_status (?f e) = ''failed'') =
                 (delivery env e s = None
                  \<or> ((\<exists>err. delivery env e s = Some (Inl err))
                       \<and> e_retry_count e + 1 = e_max_retries e))"
      using None by simp
    moreover have "delivery env e s \<noteq> None \<and> e_status (?f e) = ''failed''
                 \<longrightarrow> e_retry_count (?f e) = e_max_retries (?f e)"
      using None by simp
    ultimately show ?thesis
      by (intro exI [of _ ?f] conjI)
  next
    case (Some outcome)
    show ?thesis
    proof (cases outcome)
      case (Inr st)
      have d: "delivery env e s = Some (Inr st)" using Some Inr by simp
      let ?f = "\<lambda>r. r\<lparr>e_status := ''completed''\<rparr>"
      have "processWebhookEvent env now e s = update_event (e_id e) ?f s" and "event_ok (?f e)"
        using shape_delivered [OF lt d] by simp_all
      moreover have "\<forall>r. e_id (?f r) = e_id r" by simp
      moreover have "(e_status (?f e) = ''failed'') =
                 (delivery env e s = None
                  \<or> ((\<exists>err. delivery env e s = Some (Inl err))
                       \<and> e_retry_count e + 1 = e_max_retries e))"
        using d by simp
      moreover have "delivery env e s \<noteq> None \<and> e_status (?f e) = ''failed''
                 \<longrightarrow> e_retry_count (?f e) = e_max_retries (?f e)"
        by simp
      ultimately show ?thesis
      by (intro exI [of _ ?f] conjI)
    next
      case (Inl err)
      have d: "delivery env e s = Some (Inl err)" using Some Inl by simp
      show ?thesis
      proof (cases "e_max_retries e \<le> e_retry_count e + 1")
        case True
        let ?f = "\<lambda>r. r\<lparr>e_status := ''failed'', e_last_error := Some (error_message err),
                    e_retry_count := e_retry_count e + 1\<rparr>"
        note sh = shape_exhausted [OF lt d True]
        have "processWebhookEvent env now e s = update_event (e_id e) ?f s" by (rule sh(1))
        moreover have "event_ok (?f e)" by (rule sh(2))
        moreover have "\<forall>r. e_id (?f r) = e_id r" by simp
        moreover have "(e_status (?f e) = ''failed'') =
                 (delivery env e s = None
                  \<or> ((\<exists>err. delivery env e s = Some (Inl err))
                       \<and> e_retry_count e + 1 = e_max_retries e))"
          using d sh(3) by simp
        moreover have "delivery env e s \<noteq> None \<and> e_status (?f e) = ''failed''
                 \<longrightarrow> e_retry_count (?f e) = e_max_retries (?f e)"
          using sh(3) by simp
        ultimately show ?thesis
      by (intro exI [of _ ?f] conjI)
      next
        case False
        have less: "e_retry_count e + 1 < e_max_retries e" using False by simp
        let ?f = "\<lambda>r. r\<lparr>e_retry_count := e_retry_count e + 1,
                    e_next_retry := Some (now + int (backoffSeconds (e_retry_count e + 1))),
                    e_last_error := Some (error_message err)\<rparr>"
        note sh = shape_retry [OF pend d less]
        have nf: "e_status (?f e) \<noteq> ''failed''" by (rule sh(3))
        have "processWebhookEvent env now e s = update_event (e_id e) ?f s" by (rule sh(1))
        moreover have "event_ok (?f e)" by (rule sh(2))
        moreover have "\<forall>r. e_id (?f r) = e_id r" by simp
        moreover have "(e_status (?f e) = ''failed'') =
                 (delivery env e s = None
                  \<or> ((\<exists>err. delivery env e s = Some (Inl err))
                       \<and> e_retry_count e + 1 = e_max_retries e))"
          using d nf less by simp
        moreover have "delivery env e s \<noteq> None \<and> e_status (?f e) = ''failed''
                 \<longrightarrow> e_retry_count (?f e) = e_max_retries (?f e)"
          using nf by blast
        ultimately show ?thesis
      by (intro exI [of _ ?f] conjI)
      qed
    qed
  qed
qed

lemma filter_hd_props: "filter P xs = x # rest \<Longrightarrow> x \<in> set xs \<and> P x"
proof -
  assume a: "filter P xs = x # rest"
  have "x \<in> set (filter P xs)" by (simp add: a)
  then show ?thesis by simp
qed

lemma selected_row:
  assumes ok: "events_ok s"
      and sel: "filter (\<lambda>e. e_id e = eventId \<and> due pollTime e) (webhook_events s) = e # rest"
  shows "e \<in> set (webhook_events s)" and "e_id e = eventId" and "e_status e = ''pending''"
    and "event_ok e"
proof -
  from filter_hd_props [OF sel]
  show m: "e \<in> set (webhook_events s)" and "e_id e = eventId" and "e_status e = ''pending''"
    by (simp_all add: due_def)
  show "event_ok e" using ok m by (simp add: events_ok_def list_all_iff)
qed

lemma dispatch_step_ok:
  assumes ok: "events_ok s"
  shows "events_ok (dispatch_step env pollTime now eventId s)"
proof (cases "filter (\<lambda>e. e_id e = eventId \<and> due pollTime e) (webhook_events s)")
  case Nil
  then show ?thesis using ok by (simp add: dispatch_step_def)
next
  case (Cons e rest)
  note row = selected_row [OF ok Cons]
  obtain f where f: "processWebhookEvent env now e s = update_event (e_id e) f s"
      "\<forall>r. e_id (f r) = e_id r" "event_ok (f e)"
    using processWebhookEvent_shape [OF row(3) row(4), of env now s] by blast
  have "events_ok (update_event (e_id e) f s)"
    using ok row(1) f(2) f(3) by (intro events_ok_update) simp_all
  then show ?thesis using Cons f(1) by (simp add: dispatch_step_def)
qed

lemma dispatch_step_terminal:
  assumes ok: "events_ok s" and r: "r \<in> set (webhook_events s)" and t: "e_status r \<noteq> ''pending''"
  shows "r \<in> set (webhook_events (dispatch_step env pollTime now eventId s))"
proof (cases "filter (\<lambda>e. e_id e = eventId \<and> due pollTime e) (webhook_events s)")
  case Nil
  then show ?thesis using r by (simp add: dispatch_step_def)
next
  case (Cons e rest)
  note row = selected_row [OF ok Cons]
  obtain f where f: "processWebhookEvent env now e s = update_event (e_id e) f s"
    using processWebhookEvent_shape [OF row(3) row(4), of env now s] by blast
  have d: "distinct (map e_id (webhook_events s))" using ok by (simp add: events_ok_def)
  have "r \<noteq> e" using t row(3) by auto
  then have "r \<in> set (map (\<lambda>x. if e_id x = e_id e then f x else x) (webhook_events s))"
    using update_keeps_others [OF d row(1) r] by simp
  then show ?thesis using Cons f by (simp add: dispatch_step_def update_event_events)
qed

lemma dispatch_run_ok: "events_ok s \<Longrightarrow> events_ok (dispatch_run steps s)"
  by (induction steps s rule: dispatch_run.induct) (simp_all add: dispatch_step_ok)

lemma dispatch_run_terminal:
  "events_ok s \<Longrightarrow> r \<in> set (webhook_events s) \<Longrightarrow> e_status r \<noteq> ''pending'' \<Longrightarrow>
   r \<in> set (webhook_events (dispatch_run steps s))"
  by (induction steps s rule: dispatch_run.induct)
     (simp_all add: dispatch_step_ok dispatch_step_terminal)

lemma event_ok_bound: "event_ok r \<Longrightarrow> e_retry_count r \<le> e_max_retries r"
  by (cases "e_status r = ''pending''") (simp_all add: event_ok_def)

lemma events_ok_bound:
  "events_ok s \<Longrightarrow> list_all (\<lambda>r. e_retry_count r \<le> e_max_retries r) (webhook_events s)"
  unfolding events_ok_def list_all_iff using event_ok_bound by blast

lemma dispatch_step_failed_iff:
  assumes ok: "events_ok s" and ev: "event_by_id eventId s = Some e" and due: "due pollTime e"
  shows "\<exists>e'. event_by_id eventId (dispatch_step env pollTime now eventId s) = Some e'
           \<and> (e_status e' = ''failed'') =
                (delivery env e s = None
                 \<or> ((\<exists>err. delivery env e s = Some (Inl err))
                      \<and> e_retry_count e + 1 = e_max_retries e))
           \<and> (delivery env e s \<noteq> None \<and> e_status e' = ''failed''
                \<longrightarrow> e_retry_count e' = e_max_retries e')"
proof -
  have mem: "e \<in> set (webhook_events s)" and idq: "e_id e = eventId"
    using event_by_id_Some [OF ev] by simp_all
  have d: "distinct (map e_id (webhook_events s))" using ok by (simp add: events_ok_def)
  have "e \<in> set (filter (\<lambda>x. e_id x = eventId \<and> due pollTime x) (webhook_events s))"
    using mem idq due by simp
  then obtain e0 rest where sel:
      "filter (\<lambda>x. e_id x = eventId \<and> due pollTime x) (webhook_events s) = e0 # rest"
    by (cases "filter (\<lambda>x. e_id x = eventId \<and> due pollTime x) (webhook_events s)") auto
  note row = selected_row [OF ok sel]
  have e0: "e0 = e" using distinct_ids_unique [OF d mem row(1)] row(2) idq by simp
  have pend: "e_status e = ''pending''" and eok: "event_ok e" using row(3,4) e0 by simp_all
  obtain f where f: "processWebhookEvent env now e s = update_event (e_id e) f s"
      "\<forall>r. e_id (f r) = e_id r"
      "(e_status (f e) = ''failed'') =
         (delivery env e s = None
          \<or> ((\<exists>err. delivery env e s = Some (Inl err))
               \<and> e_retry_count e + 1 = e_max_retries e))"
      "delivery env e s \<noteq> None \<and> e_status (f e) = ''failed''
         \<longrightarrow> e_retry_count (f e) = e_max_retries (f e)"
    using processWebhookEvent_shape [OF pend eok, of env now s] by blast
  have step: "dispatch_step env pollTime now eventId s = update_event (e_id e) f s"
    using sel e0 f(1) by (simp add: dispatch_step_def)
  have "find (\<lambda>r. e_id r = e_id e)
          (map (\<lambda>r. if e_id r = e_id e then f r else r) (webhook_events s)) = Some (f e)"
    using f(2) by (intro find_update_hit [OF d mem]) simp
  then have "event_by_id eventId (dispatch_step env pollTime now eventId s) = Some (f e)"
    using idq by (simp add: step event_by_id_def update_event_events)
  then show ?thesis using f(3,4) by blast
qed

text \<open>The rows the payment processor inserts are in the state the dispatcher keeps.\<close>

lemma new_event_ok: "event_ok (new_event eid event_type pl w)"
  by (simp add: event_ok_def new_event_def)

text \<open>
  Claim C7, as the code has it. Take an outbox with unique event identifiers in which
  every pending row has \<open>retry_count < max_retries\<close> and no row is past its limit
  (rows are inserted with 0 and 5), and any sequence of dispatcher rounds, in each of
  which the poller hands a row to \<open>processWebhookEvent\<close> only while the row is pending
  and due. Then the outbox stays in that state, so \<open>retry_count\<close> never exceeds
  \<open>max_retries\<close>; a row whose status is not \<open>pending\<close> is never changed again; and a
  round on a due row makes its status \<open>failed\<close> if and only if the subscription row is
  missing or the delivery fails with \<open>retry_count + 1 = max_retries\<close>, and after a failed
  delivery a \<open>failed\<close> row has \<open>retry_count = max_retries\<close>.
\<close>

theorem dispatcher_rounds:
  assumes "events_ok s"
  shows "events_ok (dispatch_run steps s)
       \<and> list_all (\<lambda>r. e_retry_count r \<le> e_max_retries r)
            (webhook_events (dispatch_run steps s))
       \<and> (r \<in> set (webhook_events s) \<and> e_status r \<noteq> ''pending''
            \<longrightarrow> r \<in> set (webhook_events (dispatch_run steps s)))
       \<and> (event_by_id eventId s = Some e \<and> due pollTime e \<longrightarrow>
            (\<exists>e'. event_by_id eventId (dispatch_step env pollTime now eventId s) = Some e'
               \<and> (e_status e' = ''failed'') =
                    (delivery env e s = None
                     \<or> ((\<exists>err. delivery env e s = Some (Inl err))
                          \<and> e_retry_count e + 1 = e_max_retries e))
               \<and> (delivery env e s \<noteq> None \<and> e_status e' = ''failed''
                    \<longrightarrow> e_retry_count e' = e_max_retries e')))"
proof (intro conjI impI)
  show ok: "events_ok (dispatch_run steps s)"
    using assms by (rule dispatch_run_ok)
  show "list_all (\<lambda>r. e_retry_count r \<le> e_max_retries r) (webhook_events (dispatch_run steps s))"
    using ok by (rule events_ok_bound)
next
  assume "r \<in> set (webhook_events s) \<and> e_status r \<noteq> ''pending''"
  then show "r \<in> set (webhook_events (dispatch_run steps s))"
    using assms dispatch_run_terminal by blast
next
  assume "event_by_id eventId s = Some e \<and> due pollTime e"
  then show "\<exists>e'. event_by_id eventId (dispatch_step env pollTime now eventId s) = Some e'
               \<and> (e_status e' = ''failed'') =
                    (delivery env e s = None
                     \<or> ((\<exists>err. delivery env e s = Some (Inl err))
                          \<and> e_retry_count e + 1 = e_max_retries e))
               \<and> (delivery env e s \<noteq> None \<and> e_status e' = ''failed''
                    \<longrightarrow> e_retry_count e' = e_max_retries e')"
    using dispatch_step_failed_iff [OF assms] by blast
qed

theorem dispatcher_rounds_witness:
  "events_ok outbox
   \<and> events_ok (dispatch_run failing_rounds outbox)
   \<and> list_all (\<lambda>r. e_retry_count r \<le> e_max_retries r)
        (webhook_events (dispatch_run failing_rounds outbox))
   \<and> delivered_row \<in> set (webhook_events outbox) \<and> e_status delivered_row \<noteq> ''pending''
   \<and> delivered_row \<in> set (webhook_events (dispatch_run failing_rounds outbox))
   \<and> event_by_id ''evt-3'' outbox = Some last_try \<and> due 0 last_try
   \<and> (\<exists>e'. event_by_id ''evt-3'' (dispatch_step receiver_down 0 10 ''evt-3'' outbox) = Some e'
          \<and> (e_status e' = ''failed'') =
               (delivery receiver_down last_try outbox = None
                \<or> ((\<exists>err. delivery receiver_down last_try outbox = Some (Inl err))
                     \<and> e_retry_count last_try + 1 = e_max_retries last_try))
          \<and> (delivery receiver_down last_try outbox \<noteq> None \<and> e_status e' = ''failed''
               \<longrightarrow> e_retry_count e' = e_max_retries e'))
   \<and> event_by_id ''evt-1'' (dispatch_run failing_rounds outbox) =
        Some (first_try\<lparr>e_status := ''failed'', e_retry_count := 5, e_next_retry := Some 1960,
               e_last_error := Some ''webhookUrl is not defined''\<rparr>)"
proof -
  note t = dispatcher_rounds [OF outbox_ok, where steps = failing_rounds and r = delivered_row
      and eventId = "''evt-3''" and e = last_try and pollTime = 0 and env = receiver_down
      and now = 10]
  have m: "delivered_row \<in> set (webhook_events outbox)" by (simp add: outbox_def)
  have st: "e_status delivered_row \<noteq> ''pending''" by (simp add: delivered_row_def)
  have ev: "event_by_id ''evt-3'' outbox = Some last_try"
    by (simp add: example_defs event_by_id_def)
  have du: "due 0 last_try" by (simp add: example_defs due_def)
  have c2: "events_ok (dispatch_run failing_rounds outbox)" using t by blast
  have c3: "list_all (\<lambda>r. e_retry_count r \<le> e_max_retries r)
        (webhook_events (dispatch_run failing_rounds outbox))" using t by blast
  have c4: "delivered_row \<in> set (webhook_events (dispatch_run failing_rounds outbox))"
    using t m st by blast
  have c5: "\<exists>e'. event_by_id ''evt-3'' (dispatch_step receiver_down 0 10 ''evt-3'' outbox) = Some e'
          \<and> (e_status e' = ''failed'') =
               (delivery receiver_down last_try outbox = None
                \<or> ((\<exists>err. delivery receiver_down last_try outbox = Some (Inl err))
                     \<and> e_retry_count last_try + 1 = e_max_retries last_try))
          \<and> (delivery receiver_down last_try outbox \<noteq> None \<and> e_status e' = ''failed''
               \<longrightarrow> e_retry_count e' = e_max_retries e')"
    using t ev du by blast
  from outbox_ok c2 c3 m st c4 ev du c5 failing_rounds_result show ?thesis
    by (intro conjI)
qed

text \<open>
  Claim C7 as stated fails for \<open>processWebhookEvent\<close> itself, which never reads the
  row's status and takes the retry count from the job's data. A job for an event on its
  last retry is delivered and the row is \<open>completed\<close>; the same job run again with the
  receiver down turns the row to \<open>failed\<close>. And an event whose subscription row is
  missing becomes \<open>failed\<close> with \<open>retry_count = 0\<close>, below \<open>max_retries = 5\<close>.
\<close>

theorem redelivered_event_counterexample:
  "event_by_id ''evt-3'' (processWebhookEvent receiver_up 0 last_try outbox)
     = Some (last_try\<lparr>e_status := ''completed''\<rparr>)
   \<and> event_by_id ''evt-3''
       (processWebhookEvent receiver_down 10 last_try
          (processWebhookEvent receiver_up 0 last_try outbox))
     = Some (last_try\<lparr>e_status := ''failed'', e_retry_count := 5,
               e_last_error := Some ''webhookUrl is not defined''\<rparr>)
   \<and> event_by_id ''evt-4'' outbox = Some orphan
   \<and> e_retry_count orphan = 0 \<and> e_max_retries orphan = 5
   \<and> event_by_id ''evt-4'' (processWebhookEvent receiver_down 10 orphan outbox)
     = Some (orphan\<lparr>e_status := ''failed''\<rparr>)"
  by (simp add: example_defs dispatcher_defs)

section \<open>Properties of the payment processor\<close>

lemma first_status_update:
  "(case filter (\<lambda>p. p_id p = pid)
           (map (\<lambda>p. if p_id p = pid' then p\<lparr>p_status := st\<rparr> else p) ps) of
      [] \<Rightarrow> None | p # _ \<Rightarrow> Some (p_status p))
   = (if pid = pid'
      then map_option (\<lambda>_. st) (case filter (\<lambda>p. p_id p = pid) ps of [] \<Rightarrow> None | p # _ \<Rightarrow> Some (p_status p))
      else (case filter (\<lambda>p. p_id p = pid) ps of [] \<Rightarrow> None | p # _ \<Rightarrow> Some (p_status p)))"
  by (induction ps) auto

lemma status_of_update:
  "status_of pid (update_payment_status st pid' s) =
     (if pid = pid' then map_option (\<lambda>_. st) (status_of pid s) else status_of pid s)"
  unfolding status_of_def update_payment_status_def
  using first_status_update [of pid pid' st "payments s"] by simp

lemma status_of_payments:
  "payments s' = payments s \<Longrightarrow> status_of pid s' = status_of pid s"
  by (simp add: status_of_def)

lemma payments_insert_webhook_events:
  "payments (insert_webhook_events new_id event_type pl s) = payments s"
  by (simp add: insert_webhook_events_def)

lemma status_of_insert_webhook_events:
  "status_of pid (insert_webhook_events new_id event_type pl s) = status_of pid s"
  by (rule status_of_payments [OF payments_insert_webhook_events])

lemma status_of_processPayment:
  "status_of pid (snd (processPayment new_id isSuccess data s)) =
     (if pid = job_paymentId data
      then map_option (\<lambda>_. if isSuccess then ''completed'' else ''failed'') (status_of pid s)
      else status_of pid s)"
  by (simp add: processPayment_def Let_def status_of_update status_of_insert_webhook_events)

lemma payments_insert_refund: "payments (insert_refund r s) = payments s"
  by (simp add: insert_refund_def)

lemma payments_create_refund:
  "payments (snd (create_refund env refundId now paymentId amount reason s)) = payments s"
  by (simp add: create_refund_def Let_def payments_insert_refund split: list.splits sum.splits)

lemma payments_post_refund:
  "payments (snd (post_refund env refundId now header paymentId amount reason s)) = payments s"
  by (simp add: post_refund_def payments_create_refund split: option.splits)

lemma status_of_absent:
  "pid \<notin> set (map p_id (payments s)) \<Longrightarrow> status_of pid s = None"
proof -
  assume "pid \<notin> set (map p_id (payments s))"
  then have "filter (\<lambda>p. p_id p = pid) (payments s) = []"
    by (auto simp add: filter_empty_conv)
  then show ?thesis by (simp add: status_of_def)
qed

lemma status_of_append:
  "status_of pid (s\<lparr>payments := payments s @ [p]\<rparr>) =
     (case status_of pid s of
        Some st \<Rightarrow> Some st
      | None \<Rightarrow> if p_id p = pid then Some (p_status p) else None)"
  by (simp add: status_of_def split: list.splits)

lemma payments_new_payment:
  "payments (add_payment_job job (insert_idempotency_key r (insert_payment p s))) = payments s @ [p]"
  by (simp add: add_payment_job_def insert_idempotency_key_def insert_payment_def)

lemma p_status_new_payment:
  "p_status (new_payment paymentId idempotencyKey amount currency customer_email metadata rq now)
     = ''pending''"
  by (simp add: new_payment_def)

lemma payments_create_payment:
  "payments (snd (create_payment generatedKey paymentId now header rq s)) = payments s
   \<or> (\<exists>p. payments (snd (create_payment generatedKey paymentId now header rq s)) = payments s @ [p]
           \<and> p_status p = ''pending'')"
  unfolding create_payment_def Let_def
  by (simp add: payments_new_payment p_status_new_payment split: list.splits)

lemma first_status_append:
  "(case filter P (ps @ [p]) of [] \<Rightarrow> None | q # _ \<Rightarrow> Some (p_status q)) =
     (case (case filter P ps of [] \<Rightarrow> None | q # _ \<Rightarrow> Some (p_status q)) of
        Some st \<Rightarrow> Some st
      | None \<Rightarrow> if P p then Some (p_status p) else None)"
  by (simp split: list.splits)

lemma status_of_appended:
  assumes "payments s' = payments s @ [p]" and "p_status p = ''pending''"
  shows "status_of pid s' = status_of pid s
         \<or> (status_of pid s = None \<and> status_of pid s' = Some ''pending'')"
proof -
  have "status_of pid s' =
          (case status_of pid s of
             Some st \<Rightarrow> Some st
           | None \<Rightarrow> if p_id p = pid then Some (p_status p) else None)"
    unfolding status_of_def assms(1) by (rule first_status_append)
  then show ?thesis using assms(2) by (cases "status_of pid s") simp_all
qed

lemma status_of_create_payment:
  "status_of pid (snd (create_payment generatedKey paymentId now header rq s)) = status_of pid s
   \<or> (status_of pid s = None
       \<and> status_of pid (snd (create_payment generatedKey paymentId now header rq s)) = Some ''pending'')"
  using payments_create_payment [of generatedKey paymentId now header rq s]
proof (elim disjE exE conjE)
  assume "payments (snd (create_payment generatedKey paymentId now header rq s)) = payments s"
  then have "status_of pid (snd (create_payment generatedKey paymentId now header rq s)) = status_of pid s"
    by (rule status_of_payments)
  then show ?thesis by simp
next
  fix p
  assume "payments (snd (create_payment generatedKey paymentId now header rq s)) = payments s @ [p]"
    and "p_status p = ''pending''"
  then show ?thesis by (rule status_of_appended)
qed

lemma status_of_post_payments:
  "status_of pid (snd (post_payments generatedKey paymentId now header rq s)) = status_of pid s
   \<or> (status_of pid s = None
       \<and> status_of pid (snd (post_payments generatedKey paymentId now header rq s)) = Some ''pending'')"
  using status_of_create_payment [of pid generatedKey paymentId now header rq s]
  by (simp add: post_payments_def split: option.splits)

lemma status_of_post_refund:
  "status_of pid (snd (post_refund env refundId now header paymentId amount reason s)) = status_of pid s"
  by (rule status_of_payments [OF payments_post_refund])

lemma status_step_refl: "status_step x x"
  by (cases x) simp_all

lemma operation_status_step:
  assumes "case opn of
             RunProcessPayment _ _ data \<Rightarrow>
               (case status_of (job_paymentId data) s of None \<Rightarrow> True | Some st \<Rightarrow> st = ''pending'')
           | _ \<Rightarrow> True"
  shows "status_step (status_of pid s) (status_of pid (apply_operation opn s))"
proof (cases opn)
  case (PostPayment generatedKey paymentId now header rq)
  then show ?thesis
    using status_of_post_payments [of pid generatedKey paymentId now header rq s]
    by (auto simp add: status_step_refl)
next
  case (PostRefund env refundId now header paymentId amount reason)
  then show ?thesis
    by (simp add: status_of_post_refund status_step_refl)
next
  case (RunProcessPayment new_id isSuccess data)
  show ?thesis
  proof (cases "pid = job_paymentId data")
    case False
    then show ?thesis
      using RunProcessPayment by (simp add: status_of_processPayment status_step_refl)
  next
    case True
    show ?thesis
    proof (cases "status_of pid s")
      case None
      then show ?thesis using RunProcessPayment True by (simp add: status_of_processPayment)
    next
      case (Some st)
      then have "st = ''pending''" using assms RunProcessPayment True by simp
      then show ?thesis
        using RunProcessPayment True Some
        by (simp add: status_of_processPayment dag_edge_def)
    qed
  qed
qed

lemma run_trace_hd: "\<exists>rest. run_trace ops s = s # rest"
  by (cases ops) simp_all

lemma guarded_path:
  "processed_while_pending ops s \<Longrightarrow> status_path (map (status_of pid) (run_trace ops s))"
proof (induction ops arbitrary: s)
  case Nil
  then show ?case by simp
next
  case (Cons opn ops)
  let ?s' = "apply_operation opn s"
  obtain rest where rest: "run_trace ops ?s' = ?s' # rest"
    using run_trace_hd by blast
  have step: "status_step (status_of pid s) (status_of pid ?s')"
    using Cons.prems by (intro operation_status_step) simp
  have "status_path (map (status_of pid) (run_trace ops ?s'))"
    using Cons.prems by (intro Cons.IH) simp
  then show ?case using step rest by simp
qed

lemmas shop_defs = shop_def paid_def waiting_def settled_def earlier_refund_def merchant_hook_def
  refund_hook_def paused_hook_def old_key_def paid_job_def waiting_job_def order_def
  receiver_up_def

lemmas intake_defs = post_payments_def create_payment_def post_refund_def create_refund_def
  idempotencyMiddleware_def new_payment_def insert_payment_def insert_idempotency_key_def
  add_payment_job_def insert_refund_def sendWebhookEvent_def

lemmas processor_defs = processPayment_def update_payment_status_def insert_webhook_events_def
  new_event_def Let_def

lemma busy_day_guard: "processed_while_pending busy_day shop"
  by (simp add: busy_day_def shop_defs intake_defs processor_defs status_of_def)

lemma busy_day_statuses:
  "map (status_of ''pay-4'') (run_trace busy_day shop) =
     [None, Some ''pending'', Some ''pending'', Some ''failed'', Some ''failed'']"
  by (simp add: busy_day_def shop_defs intake_defs processor_defs status_of_def)

lemma reprocess: "status_of ''pay-1'' shop = Some ''completed''
   \<and> status_of ''pay-1'' (snd (processPayment event_uuid False paid_job shop)) = Some ''failed''
   \<and> \<not> status_path (map (status_of ''pay-1'')
          (run_trace [RunProcessPayment event_uuid False paid_job] shop))"
  by (simp add: shop_defs processor_defs status_of_def dag_edge_def)

text \<open>
  Claim C4, as the code has it. \<open>processPayment\<close> does not read the payment: it sets the
  status of the payment its job names to \<open>completed\<close> or \<open>failed\<close> and leaves every
  other payment alone. For any sequence of operations (intake of payments, refund
  requests, runs of the payment processor) in which every run of the processor finds
  its payment \<open>pending\<close> or absent, the statuses of every payment form a path in the
  graph \<open>pending \<rightarrow> {completed, failed}\<close>,
  \<open>completed \<rightarrow> {refunded, partial_refunded}\<close>; and a run on a pending payment moves it
  along an edge from \<open>pending\<close>.
\<close>

theorem processor_status_path:
  "(processed_while_pending ops s \<longrightarrow>
      status_path (map (status_of paymentId) (run_trace ops s)))
   \<and> status_of paymentId (snd (processPayment new_id isSuccess data s)) =
       (if paymentId = job_paymentId data
        then map_option (\<lambda>_. if isSuccess then ''completed'' else ''failed'')
               (status_of paymentId s)
        else status_of paymentId s)
   \<and> (status_of (job_paymentId data) s = Some ''pending'' \<longrightarrow>
        (\<exists>st. status_of (job_paymentId data) (snd (processPayment new_id isSuccess data s)) = Some st
              \<and> dag_edge ''pending'' st))"
proof (intro conjI impI)
  assume "processed_while_pending ops s"
  then show "status_path (map (status_of paymentId) (run_trace ops s))"
    by (rule guarded_path)
next
  show "status_of paymentId (snd (processPayment new_id isSuccess data s)) =
       (if paymentId = job_paymentId data
        then map_option (\<lambda>_. if isSuccess then ''completed'' else ''failed'')
               (status_of paymentId s)
        else status_of paymentId s)"
    by (rule status_of_processPayment)
next
  assume "status_of (job_paymentId data) s = Some ''pending''"
  then show "\<exists>st. status_of (job_paymentId data) (snd (processPayment new_id isSuccess data s)) = Some st
              \<and> dag_edge ''pending'' st"
    by (simp add: status_of_processPayment dag_edge_def)
qed

theorem processor_status_path_witness:
  "processed_while_pending busy_day shop
   \<and> status_path (map (status_of ''pay-4'') (run_trace busy_day shop))
   \<and> map (status_of ''pay-4'') (run_trace busy_day shop) =
       [None, Some ''pending'', Some ''pending'', Some ''failed'', Some ''failed'']
   \<and> status_of (job_paymentId waiting_job) shop = Some ''pending''
   \<and> (\<exists>st. status_of (job_paymentId waiting_job)
               (snd (processPayment event_uuid True waiting_job shop)) = Some st
            \<and> dag_edge ''pending'' st)"
proof -
  note t = processor_status_path [where ops = busy_day and s = shop and paymentId = "''pay-4''"
      and data = waiting_job and new_id = event_uuid and isSuccess = True]
  have p: "status_of (job_paymentId waiting_job) shop = Some ''pending''"
    by (simp add: shop_defs status_of_def)
  have c2: "status_path (map (status_of ''pay-4'') (run_trace busy_day shop))"
    using t busy_day_guard by blast
  have c5: "\<exists>st. status_of (job_paymentId waiting_job)
               (snd (processPayment event_uuid True waiting_job shop)) = Some st
            \<and> dag_edge ''pending'' st"
    using t p by blast
  from busy_day_guard c2 busy_day_statuses p c5 show ?thesis
    by (intro conjI)
qed

text \<open>
  Claim C4 as stated fails: a job delivered again for a payment that is already
  \<open>completed\<close> changes it, here to \<open>failed\<close>, which is no edge of the graph.
\<close>

theorem reprocessed_payment_counterexample:
  "status_of ''pay-1'' shop = Some ''completed''
   \<and> status_of ''pay-1'' (snd (processPayment event_uuid False paid_job shop)) = Some ''failed''
   \<and> \<not> status_path (map (status_of ''pay-1'')
          (run_trace [RunProcessPayment event_uuid False paid_job] shop))"
  by (simp add: shop_defs processor_defs status_of_def dag_edge_def)

text \<open>
  What the insert of \<open>processPayment\<close> does: one pending row for each active
  subscription, in the order of the \<open>webhooks\<close> table.
\<close>

lemma new_events_webhooks:
  "map e_webhook_id (map (\<lambda>(i, w). new_event (new_id i) event_type pl w) (enumerate n ws))
     = map w_id ws"
  by (induction ws arbitrary: n) (simp_all add: new_event_def)

lemma processPayment_fanout:
  "\<exists>rows. webhook_events (snd (processPayment new_id isSuccess data s)) = webhook_events s @ rows
      \<and> map e_webhook_id rows = map w_id (filter w_active (webhooks s))
      \<and> list_all (\<lambda>e. e_status e = ''pending'') rows"
proof -
  let ?ev = "if isSuccess then ''payment.completed'' else ''payment.failed''"
  let ?pl = "if isSuccess
             then PaymentCompletedPayload (job_paymentId data) (job_amount data) (job_email data)
             else PaymentFailedPayload (job_paymentId data) (job_amount data) ''Processing failed''"
  let ?rows = "map (\<lambda>(i, w). new_event (new_id i) ?ev ?pl w)
                 (enumerate 0 (filter w_active (webhooks s)))"
  have "webhook_events (snd (processPayment new_id isSuccess data s)) = webhook_events s @ ?rows"
    by (simp add: processPayment_def Let_def insert_webhook_events_def update_payment_status_def)
  moreover have "map e_webhook_id ?rows = map w_id (filter w_active (webhooks s))"
    by (rule new_events_webhooks)
  moreover have "list_all (\<lambda>e. e_status e = ''pending'') ?rows"
    by (simp add: list_all_iff new_event_def split_def)
  ultimately show ?thesis by blast
qed

text \<open>
  Claim C5 at a failing input. When a payment completes, the active subscription that
  lists only \<open>refund.created\<close> gets a pending \<open>payment.completed\<close> row as well: the
  insert selects on \<open>active\<close> alone.
\<close>

theorem unsubscribed_hook_gets_event:
  "w_active refund_hook
   \<and> ''payment.completed'' \<notin> set (w_events refund_hook)
   \<and> map e_webhook_id (webhook_events (snd (processPayment event_uuid True waiting_job shop)))
       = [''wh-1'', ''wh-2'']
   \<and> map (\<lambda>e. (e_event_type e, e_status e))
        (webhook_events (snd (processPayment event_uuid True waiting_job shop)))
       = [(''payment.completed'', ''pending''), (''payment.completed'', ''pending'')]"
  by (simp add: shop_defs processor_defs enumerate_eq_zip)

section \<open>The intake at the inputs where the code and the specification part\<close>

text \<open>
  What the refund handler does to the \<open>refunds\<close> table: nothing, or one new pending row
  for the payment, of an amount that is at most the payment's.
\<close>

lemma create_refund_effect:
  "refunds (snd (create_refund env refundId now paymentId amount reason s)) = refunds s
   \<or> (\<exists>pay r. pay \<in> set (payments s) \<and> p_id pay = paymentId
         \<and> refunds (snd (create_refund env refundId now paymentId amount reason s)) = refunds s @ [r]
         \<and> r_payment_id r = paymentId \<and> r_amount r \<le> p_amount pay \<and> r_status r = ''pending'')"
proof (cases "filter (\<lambda>p. p_id p = paymentId) (payments s)")
  case Nil
  then show ?thesis by (simp add: create_refund_def)
next
  case (Cons pay rest)
  have "pay \<in> set (filter (\<lambda>p. p_id p = paymentId) (payments s))" by (simp add: Cons)
  then have mem: "pay \<in> set (payments s)" and idq: "p_id pay = paymentId" by simp_all
  let ?a = "case amount of None \<Rightarrow> p_amount pay | Some a \<Rightarrow> if a = 0 then p_amount pay else a"
  show ?thesis
  proof (cases "?a > p_amount pay \<or> refundId \<in> set (map r_id (refunds s))")
    case True
    then have "refunds (snd (create_refund env refundId now paymentId amount reason s)) = refunds s"
      using Cons by (auto simp add: create_refund_def Let_def)
    then show ?thesis by simp
  next
    case False
    let ?r = "\<lparr>r_id = refundId, r_payment_id = paymentId, r_amount = ?a,
               r_reason = reason, r_status = ''pending'', r_created_at = now\<rparr>"
    have "refunds (snd (create_refund env refundId now paymentId amount reason s)) = refunds s @ [?r]"
      using Cons False
      by (simp add: create_refund_def Let_def insert_refund_def sendWebhookEvent_def)
    moreover have "r_amount ?r \<le> p_amount pay" using False by simp
    ultimately show ?thesis using mem idq by (intro disjI2 exI [of _ pay] exI [of _ ?r]) simp
  qed
qed

text \<open>
  Claim C1 at a failing input. The payment of 100.00 already has a pending refund of
  60.00. A request to refund 50.00 more is not rejected with 400: the row is inserted and
  committed (the answer is 500, from the webhook call that follows the commit), and the
  refunds that are not failed now sum to 110.00. A request for a negative amount is
  inserted as well.
\<close>

theorem refund_over_budget_inserted:
  "p_amount paid = 10000
   \<and> refunded_amount ''pay-1'' shop = 6000
   \<and> post_refund receiver_up ''ref-2'' 200 None ''pay-1'' (Some 5000) None shop =
       ((500, ErrorBody ''Refund processing failed''),
        shop\<lparr>refunds :=
          [earlier_refund,
           \<lparr>r_id = ''ref-2'', r_payment_id = ''pay-1'', r_amount = 5000, r_reason = None,
            r_status = ''pending'', r_created_at = 200\<rparr>]\<rparr>)
   \<and> refunded_amount ''pay-1''
        (snd (post_refund receiver_up ''ref-2'' 200 None ''pay-1'' (Some 5000) None shop)) = 11000
   \<and> refunds (snd (post_refund receiver_up ''ref-3'' 300 None ''pay-3'' (Some (- 500)) None shop)) =
        [earlier_refund,
         \<lparr>r_id = ''ref-3'', r_payment_id = ''pay-3'', r_amount = - 500, r_reason = None,
          r_status = ''pending'', r_created_at = 300\<rparr>]"
  by (simp add: shop_defs intake_defs refunded_amount_def)

text \<open>
  Claim C2 at a failing input. A refund request for a payment that is still \<open>pending\<close>
  is not rejected with 400: the refund row is inserted and committed. (A request for a
  payment that does not exist is answered 404 and changes nothing, as the claim says.)
\<close>

theorem refund_of_pending_payment_inserted:
  "status_of ''pay-2'' shop = Some ''pending''
   \<and> post_refund receiver_up ''ref-2'' 200 None ''pay-2'' (Some 1000) None shop =
       ((500, ErrorBody ''Refund processing failed''),
        shop\<lparr>refunds :=
          [earlier_refund,
           \<lparr>r_id = ''ref-2'', r_payment_id = ''pay-2'', r_amount = 1000, r_reason = None,
            r_status = ''pending'', r_created_at = 200\<rparr>]\<rparr>)
   \<and> post_refund receiver_up ''ref-2'' 200 None ''pay-0'' (Some 1000) None shop =
       ((404, ErrorBody ''Payment not found''), shop)"
  by (simp add: shop_defs intake_defs status_of_def)

text \<open>
  Claim C3 at a failing input. A refund of the whole amount of a completed payment is
  inserted, and the payment's status is still \<open>completed\<close>, not \<open>refunded\<close>: the handler
  never writes to the \<open>payments\<close> table.
\<close>

theorem full_refund_keeps_status:
  "status_of ''pay-3'' shop = Some ''completed''
   \<and> p_amount settled = 2000
   \<and> refunded_amount ''pay-3''
        (snd (post_refund receiver_up ''ref-2'' 200 None ''pay-3'' (Some 2000) None shop)) = 2000
   \<and> status_of ''pay-3''
        (snd (post_refund receiver_up ''ref-2'' 200 None ''pay-3'' (Some 2000) None shop))
       = Some ''completed''"
  by (simp add: shop_defs intake_defs status_of_def refunded_amount_def)

text \<open>The answer of the middleware does not depend on any \<open>expires_at\<close>.\<close>

lemma first_response_expiry:
  "(case filter (\<lambda>r. ik_key r = key) (map (\<lambda>r. r\<lparr>ik_expires_at := t r\<rparr>) rs) of
      [] \<Rightarrow> None | r # _ \<Rightarrow> Some (200 :: nat, ik_response r))
   = (case filter (\<lambda>r. ik_key r = key) rs of [] \<Rightarrow> None | r # _ \<Rightarrow> Some (200, ik_response r))"
  by (induction rs) simp_all

lemma idempotencyMiddleware_ignores_expiry:
  "idempotencyMiddleware header
     (s\<lparr>idempotency_keys := map (\<lambda>r. r\<lparr>ik_expires_at := t r\<rparr>) (idempotency_keys s)\<rparr>)
   = idempotencyMiddleware header s"
  by (simp add: idempotencyMiddleware_def first_response_expiry split: option.splits)

text \<open>
  Claim C6 at a failing input. The record of \<open>key-1\<close> expired at time 86400. A request
  with that key at time 200000 is still answered 200 with the stored response, and is not
  executed afresh: the lookup does not read \<open>expires_at\<close>.
\<close>

theorem expired_key_replayed:
  "ik_expires_at old_key = 86400
   \<and> idempotencyMiddleware (Some ''key-1'') shop =
       Some (200, PaymentBody ''pay-1'' ''pending'' 10000 ''USD'' 0)
   \<and> post_payments ''key-gen'' ''pay-4'' 200000 (Some ''key-1'') order shop =
       ((200, PaymentBody ''pay-1'' ''pending'' 10000 ''USD'' 0), shop)"
  by (simp add: shop_defs intake_defs)

end
